theory Spec2Isabelle
  imports Main
begin

section \<open>C strings and the library functions the parser calls\<close>

text \<open>
  The parser of \<^verbatim>\<open>m3u8_parser.c\<close> works on a byte buffer \<^verbatim>\<open>(content, length)\<close> that the
  header documents as a NUL-terminated string.  A pointer into the buffer is modelled by the
  list of bytes from the pointer to the end of the buffer; a \<^verbatim>\<open>char *\<close> that may be
  \<^verbatim>\<open>NULL\<close> is a \<open>string option\<close>.  Allocation never fails in this model: every
  \<^verbatim>\<open>if (ptr)\<close> that guards a fresh \<^verbatim>\<open>calloc\<close> or \<^verbatim>\<open>malloc\<close> is taken.
\<close>

definition NUL :: char where
  "NUL = CHR 0x00"

text \<open>The string a \<^verbatim>\<open>char *\<close> denotes: the bytes before the first NUL.\<close>

definition c_str :: "string \<Rightarrow> string" where
  "c_str s = takeWhile (\<lambda>c. c \<noteq> NUL) s"

text \<open>\<^verbatim>\<open>str_ndup(src, n)\<close> copies \<open>n\<close> bytes and terminates them; read back, the copy ends
  at its first NUL.\<close>

definition str_ndup :: "string \<Rightarrow> nat \<Rightarrow> string" where
  "str_ndup src n = c_str (take n src)"

text \<open>\<^verbatim>\<open>str_dup(src)\<close> copies a C string.  Every string the parser stores was cut at its
  first NUL when it was copied out of the buffer, so the copy is the same string.\<close>

definition str_dup :: "string \<Rightarrow> string" where
  "str_dup src = src"

text \<open>Space or tab, the test \<^verbatim>\<open>*p == ' ' || *p == '\t'\<close> that the source repeats.\<close>

definition is_blank :: "char \<Rightarrow> bool" where
  "is_blank c = (c = CHR '' '' \<or> c = CHR 0x09)"

text \<open>\<^verbatim>\<open>isspace\<close>, \<^verbatim>\<open>isdigit\<close> and \<^verbatim>\<open>tolower\<close> in the C locale.\<close>

definition c_isspace :: "char \<Rightarrow> bool" where
  "c_isspace c = (c = CHR '' '' \<or> ((9::nat) \<le> of_char c \<and> (of_char c :: nat) \<le> 13))"

definition c_isdigit :: "char \<Rightarrow> bool" where
  "c_isdigit c = ((48::nat) \<le> of_char c \<and> (of_char c :: nat) \<le> 57)"

definition c_isupper :: "char \<Rightarrow> bool" where
  "c_isupper c = ((65::nat) \<le> of_char c \<and> (of_char c :: nat) \<le> 90)"

definition c_tolower :: "char \<Rightarrow> char" where
  "c_tolower c = (if c_isupper c then char_of ((of_char c :: nat) + 32) else c)"

text \<open>Trailing spaces and tabs removed: the loops
  \<^verbatim>\<open>while (e > s && (e[-1] == ' ' || e[-1] == '\t')) e--\<close>.\<close>

definition trim_right :: "string \<Rightarrow> string" where
  "trim_right s = rev (dropWhile is_blank (rev s))"

definition skip_ws :: "string \<Rightarrow> string" where
  "skip_ws s = dropWhile is_blank s"

text \<open>\<^verbatim>\<open>starts_with(line, len, prefix)\<close>.\<close>

definition starts_with :: "string \<Rightarrow> nat \<Rightarrow> string \<Rightarrow> bool" where
  "starts_with line len prefix =
     (if len < length prefix then False else take (length prefix) line = prefix)"

text \<open>\<^verbatim>\<open>memchr(s, c, n)\<close>: the offset of the first \<open>c\<close> among the first \<open>n\<close> bytes.\<close>

definition memchr :: "string \<Rightarrow> char \<Rightarrow> nat \<Rightarrow> nat option" where
  "memchr s c n =
     (let k = length (takeWhile (\<lambda>x. x \<noteq> c) (take n s))
      in if k < length (take n s) then Some k else None)"

subsection \<open>Numeric conversions\<close>

fun digits_val :: "int \<Rightarrow> string \<Rightarrow> int" where
  "digits_val acc [] = acc"
| "digits_val acc (c # cs) = digits_val (acc * 10 + (int (of_char c :: nat) - 48)) cs"

text \<open>An optional sign: its factor and the rest of the text.\<close>

fun c_sign :: "string \<Rightarrow> int \<times> string" where
  "c_sign [] = (1, [])"
| "c_sign (c # cs) =
     (if c = CHR ''-'' then (-1, cs) else if c = CHR ''+'' then (1, cs) else (1, c # cs))"

definition LLONG_MAX :: int where
  "LLONG_MAX = 9223372036854775807"

definition LLONG_MIN :: int where
  "LLONG_MIN = - 9223372036854775808"

text \<open>\<^verbatim>\<open>strtoll(s, NULL, 10)\<close>: white space, a sign, decimal digits; the value saturates
  at the bounds of \<^verbatim>\<open>long long\<close>; no digits give 0.\<close>

definition strtoll :: "string \<Rightarrow> int" where
  "strtoll s =
     (let (sg, r) = c_sign (dropWhile c_isspace s);
          v = sg * digits_val 0 (takeWhile c_isdigit r)
      in if v > LLONG_MAX then LLONG_MAX else if v < LLONG_MIN then LLONG_MIN else v)"

text \<open>\<^verbatim>\<open>atoi(s)\<close> as glibc computes it, \<^verbatim>\<open>(int) strtol(s, NULL, 10)\<close> with a 64-bit
  \<^verbatim>\<open>long\<close>: the saturated value wraps to 32 bits (ISO C leaves the overflow undefined).\<close>

definition atoi :: "string \<Rightarrow> int" where
  "atoi s = (strtoll s + 2147483648) mod 4294967296 - 2147483648"

text \<open>
  A \<^verbatim>\<open>double\<close> read by \<^verbatim>\<open>strtod\<close> is kept as the decimal the text denotes, \<open>Dec m e\<close> for
  \<open>m * 10 ^ e\<close>.  The model reads the decimal form (digits, an optional point, an optional
  exponent); the hexadecimal, \<^verbatim>\<open>INF\<close> and \<^verbatim>\<open>NAN\<close> spellings and the rounding to binary64
  are not modelled, so the value is the C value wherever the decimal is a binary64 number.
\<close>

datatype cdouble = Dec int int

definition zero_double :: cdouble where
  "zero_double = Dec 0 0"

text \<open>The exponent part \<^verbatim>\<open>[eE][+-]?digits\<close>; it counts only when a digit follows.\<close>

definition exponent_part :: "string \<Rightarrow> int" where
  "exponent_part r =
     (case r of
        [] \<Rightarrow> 0
      | c # cs \<Rightarrow>
          if c = CHR ''e'' \<or> c = CHR ''E'' then
            (let (sg, ds) = c_sign cs; es = takeWhile c_isdigit ds
             in if es = [] then 0 else sg * digits_val 0 es)
          else 0)"

definition strtod :: "string \<Rightarrow> cdouble" where
  "strtod s =
     (let (sg, r) = c_sign (dropWhile c_isspace s);
          ip = takeWhile c_isdigit r;
          r1 = dropWhile c_isdigit r;
          fp = (case r1 of [] \<Rightarrow> [] | c # cs \<Rightarrow> if c = CHR ''.'' then takeWhile c_isdigit cs else []);
          r2 = (case r1 of [] \<Rightarrow> [] | c # cs \<Rightarrow> if c = CHR ''.'' then dropWhile c_isdigit cs else r1)
      in if ip = [] \<and> fp = [] then zero_double
         else Dec (sg * digits_val 0 (ip @ fp)) (exponent_part r2 - int (length fp)))"

definition atof :: "string \<Rightarrow> cdouble" where
  "atof s = strtod s"

text \<open>The cast \<^verbatim>\<open>(long long) d\<close>: truncation toward zero.  Out of range the cast is
  undefined in ISO C; the model returns what x86-64 does, \<^verbatim>\<open>LLONG_MIN\<close>.\<close>

definition ll_of_double :: "cdouble \<Rightarrow> int" where
  "ll_of_double d =
     (case d of Dec m e \<Rightarrow>
        (let v = (if 0 \<le> e then m * 10 ^ nat e
                  else if 0 \<le> m then m div 10 ^ nat (- e)
                  else - ((- m) div 10 ^ nat (- e)))
         in if v > LLONG_MAX \<or> v < LLONG_MIN then LLONG_MIN else v))"

section \<open>Attribute lists\<close>

text \<open>An \<^verbatim>\<open>M3U8Attribute\<close> list: the \<^verbatim>\<open>next\<close> chain is a HOL list, \<^verbatim>\<open>NULL\<close> the empty
  list.\<close>

type_synonym M3U8Attribute = "string \<times> string"

definition normalize_char :: "char \<Rightarrow> char" where
  "normalize_char c = (if c = CHR ''-'' then CHR ''_'' else c_tolower c)"

definition normalize_attr_name :: "string \<Rightarrow> string" where
  "normalize_attr_name name = trim_right (map normalize_char name)"

text \<open>The characters up to the next \<open>=\<close> or comma.\<close>

definition not_eq_comma :: "char \<Rightarrow> bool" where
  "not_eq_comma c = (c \<noteq> CHR ''='' \<and> c \<noteq> CHR '','')"

definition not_comma :: "char \<Rightarrow> bool" where
  "not_comma c = (c \<noteq> CHR '','')"

text \<open>One step over a separator: \<^verbatim>\<open>if (p < end) p++\<close>.\<close>

definition step_over :: "string \<Rightarrow> string" where
  "step_over p = (case p of [] \<Rightarrow> [] | _ # cs \<Rightarrow> cs)"

text \<open>A quoted value starting at the opening quote \<open>q\<close>: the value with its quotes, and
  the text after the closing quote (an unterminated value runs to the end).\<close>

definition quoted_value :: "char \<Rightarrow> string \<Rightarrow> string \<times> string" where
  "quoted_value q p =
     (let body = takeWhile (\<lambda>c. c \<noteq> q) p; r = dropWhile (\<lambda>c. c \<noteq> q) p
      in case r of [] \<Rightarrow> (q # body, []) | _ # cs \<Rightarrow> (q # body @ [q], cs))"

text \<open>
  \<^verbatim>\<open>parse_attributes(line, len)\<close> on the slice \<open>p\<close> of \<open>len\<close> bytes.  Where the source
  tests \<^verbatim>\<open>*eq == ','\<close> with \<open>eq\<close> at the end of the slice it reads the byte after the
  line, which is a trimmed blank, a line terminator or the buffer's NUL and never a comma.
\<close>

function parse_attributes :: "string \<Rightarrow> M3U8Attribute list" where
  "parse_attributes p =
     (let p1 = skip_ws p in
      if p1 = [] then []
      else
        let tok = takeWhile not_eq_comma p1; eq = dropWhile not_eq_comma p1 in
        if eq = [] \<or> hd eq = CHR '','' then
          (let v = trim_right tok
           in (if v \<noteq> [] then [([], str_ndup v (length v))] else [])
              @ parse_attributes (step_over eq))
        else
          let key = trim_right tok; p2 = skip_ws (tl eq) in
          if p2 \<noteq> [] \<and> (hd p2 = CHR 0x22 \<or> hd p2 = CHR 0x27) then
            (let (v, p3) = quoted_value (hd p2) (tl p2)
             in (normalize_attr_name (str_ndup key (length key)), str_ndup v (length v))
                # parse_attributes (step_over (dropWhile not_comma p3)))
          else
            (let v = trim_right (takeWhile not_comma p2)
             in (normalize_attr_name (str_ndup key (length key)), str_ndup v (length v))
                # parse_attributes (step_over (dropWhile not_comma p2))))"
  by pat_completeness auto

lemma length_step_over_dropWhile: "length (step_over (dropWhile P xs)) \<le> length xs"
  by (induction xs) (auto simp: step_over_def split: list.splits)

lemma step_over_dropWhile_less:
  assumes "xs \<noteq> []"
  shows "length (step_over (dropWhile P xs)) < length xs"
proof (cases xs)
  case Nil
  with assms show ?thesis by simp
next
  case (Cons a ys)
  show ?thesis
  proof (cases "P a")
    case True
    then show ?thesis using Cons length_step_over_dropWhile[of P ys] by simp
  next
    case False
    then show ?thesis using Cons by (simp add: step_over_def)
  qed
qed

lemma length_skip_ws: "length (skip_ws p) \<le> length p"
  by (simp add: skip_ws_def length_dropWhile_le)

lemma length_quoted_rest:
  assumes "quoted_value q p = (v, r)"
  shows "length r \<le> length p"
proof -
  have "length (dropWhile (\<lambda>c. c \<noteq> q) p) \<le> length p"
    by (rule length_dropWhile_le)
  with assms show ?thesis
    by (auto simp: quoted_value_def Let_def split: list.splits)
qed

lemma after_eq_less:
  assumes "eq = dropWhile not_eq_comma p1" "eq \<noteq> []"
  shows "length (skip_ws (tl eq)) < length p1"
proof -
  have "length (tl eq) < length eq" using assms(2) by (cases eq) auto
  moreover have "length eq \<le> length p1" using assms(1) by (simp add: length_dropWhile_le)
  ultimately show ?thesis using length_skip_ws[of "tl eq"] by linarith
qed

termination parse_attributes
proof (relation "measure length", goal_cases)
  case 1
  show ?case by simp
next
  case (2 p p1 tok eq v)
  then show ?case
    using step_over_dropWhile_less[of p1 not_eq_comma] length_skip_ws[of p] by simp
next
  case (3 p p1 tok eq key p2 x v p3)
  have a: "length p2 < length p1" using 3 after_eq_less[of eq p1] by simp
  have "length p3 \<le> length (tl p2)"
    using 3 length_quoted_rest[of "hd p2" "tl p2" v p3] by simp
  then have "length p3 \<le> length p2" by (cases p2) auto
  then show ?case
    using a length_step_over_dropWhile[of not_comma p3] length_skip_ws[of p] 3(1) by simp
next
  case (4 p p1 tok eq key p2 v)
  have a: "length p2 < length p1" using 4 after_eq_less[of eq p1] by simp
  then show ?case
    using length_step_over_dropWhile[of not_comma p2] length_skip_ws[of p] 4(1) by simp
qed

declare parse_attributes.simps [simp del]

text \<open>\<^verbatim>\<open>get_attr\<close>: the value of the first attribute whose key is \<open>key\<close>.\<close>

fun get_attr :: "M3U8Attribute list \<Rightarrow> string \<Rightarrow> string option" where
  "get_attr [] key = None"
| "get_attr ((k, v) # as) key = (if k = key then Some v else get_attr as key)"

definition get_attr_int :: "M3U8Attribute list \<Rightarrow> string \<Rightarrow> int \<Rightarrow> int" where
  "get_attr_int attrs key def = (case get_attr attrs key of Some v \<Rightarrow> atoi v | None \<Rightarrow> def)"

definition get_attr_ll :: "M3U8Attribute list \<Rightarrow> string \<Rightarrow> int \<Rightarrow> int" where
  "get_attr_ll attrs key def = (case get_attr attrs key of Some v \<Rightarrow> strtoll v | None \<Rightarrow> def)"

definition get_attr_double :: "M3U8Attribute list \<Rightarrow> string \<Rightarrow> cdouble \<Rightarrow> cdouble" where
  "get_attr_double attrs key def = (case get_attr attrs key of Some v \<Rightarrow> atof v | None \<Rightarrow> def)"

definition get_attr_str :: "M3U8Attribute list \<Rightarrow> string \<Rightarrow> string option" where
  "get_attr_str attrs key = (case get_attr attrs key of Some v \<Rightarrow> Some (str_dup v) | None \<Rightarrow> None)"

text \<open>\<^verbatim>\<open>remove_quotes\<close> as \<^verbatim>\<open>get_attr_str_unquoted\<close> inlines it: a value of two or more
  bytes between a pair of equal quotes loses them.\<close>

definition unquote :: "string \<Rightarrow> string" where
  "unquote v =
     (if 2 \<le> length v \<and>
         ((hd v = CHR 0x22 \<and> last v = CHR 0x22) \<or> (hd v = CHR 0x27 \<and> last v = CHR 0x27))
      then str_ndup (tl v) (length v - 2) else str_dup v)"

definition get_attr_str_unquoted :: "M3U8Attribute list \<Rightarrow> string \<Rightarrow> string option" where
  "get_attr_str_unquoted attrs key =
     (case get_attr attrs key of Some v \<Rightarrow> Some (unquote v) | None \<Rightarrow> None)"

section \<open>The parsed structures\<close>

text \<open>
  Each C struct is a record; the fields carry the struct's prefix because the structs share
  field names.  An \<^verbatim>\<open>int\<close> used as a flag is a \<open>bool\<close>, a linked list (head, tail and
  \<^verbatim>\<open>next\<close> pointers) a HOL list in the order of the chain.
\<close>

record M3U8Key =
  key_method :: "string option"
  key_uri :: "string option"
  key_iv :: "string option"
  key_keyformat :: "string option"
  key_keyformatversions :: "string option"

record M3U8Map =
  map_uri :: "string option"
  map_byterange :: "string option"

record M3U8DateRange =
  dr_id :: "string option"
  dr_class_name :: "string option"
  dr_start_date :: "string option"
  dr_end_date :: "string option"
  dr_duration :: cdouble
  dr_planned_duration :: cdouble
  dr_scte35_cmd :: "string option"
  dr_scte35_out :: "string option"
  dr_scte35_in :: "string option"
  dr_end_on_next :: "string option"
  dr_x_attrs :: "M3U8Attribute list"

record M3U8Part =
  part_uri :: "string option"
  part_duration :: cdouble
  part_byterange :: "string option"
  part_independent :: "string option"
  part_gap :: "string option"
  part_dateranges :: "M3U8DateRange list"
  part_gap_tag :: bool

text \<open>
  \<^verbatim>\<open>M3U8Segment.key\<close> and \<^verbatim>\<open>init_section\<close> are pointers to objects that \<^verbatim>\<open>handle_key\<close> and
  \<^verbatim>\<open>handle_map\<close> allocate and append to the document's \<^verbatim>\<open>keys\<close> and \<^verbatim>\<open>segment_map\<close>
  chains, which never lose an element.  Such a pointer is modelled by the position of its
  object in the chain: two pointers are equal when the positions are, and \<open>None\<close> is
  \<^verbatim>\<open>NULL\<close>.
\<close>

record M3U8Segment =
  seg_duration :: cdouble
  seg_title :: "string option"
  seg_uri :: "string option"
  seg_byterange :: "string option"
  seg_bitrate :: int
  seg_discontinuity :: bool
  seg_program_date_time :: "string option"
  seg_cue_in :: bool
  seg_cue_out :: bool
  seg_cue_out_start :: bool
  seg_cue_out_explicitly_duration :: bool
  seg_scte35 :: "string option"
  seg_oatcls_scte35 :: "string option"
  seg_scte35_duration :: "string option"
  seg_scte35_elapsedtime :: "string option"
  seg_asset_metadata :: "M3U8Attribute list"
  seg_key :: "nat option"
  seg_init_section :: "nat option"
  seg_dateranges :: "M3U8DateRange list"
  seg_gap_tag :: bool
  seg_blackout :: "string option"
  seg_parts :: "M3U8Part list"

record M3U8Playlist =
  pl_uri :: "string option"
  pl_program_id :: int
  pl_bandwidth :: int
  pl_average_bandwidth :: int
  pl_resolution :: "string option"
  pl_codecs :: "string option"
  pl_frame_rate :: cdouble
  pl_video :: "string option"
  pl_audio :: "string option"
  pl_subtitles :: "string option"
  pl_closed_captions :: "string option"
  pl_video_range :: "string option"
  pl_hdcp_level :: "string option"
  pl_pathway_id :: "string option"
  pl_stable_variant_id :: "string option"
  pl_req_video_layout :: "string option"

record M3U8IFramePlaylist =
  ifr_uri :: "string option"
  ifr_program_id :: int
  ifr_bandwidth :: int
  ifr_average_bandwidth :: int
  ifr_resolution :: "string option"
  ifr_codecs :: "string option"
  ifr_video_range :: "string option"
  ifr_hdcp_level :: "string option"
  ifr_pathway_id :: "string option"
  ifr_stable_variant_id :: "string option"

record M3U8ImagePlaylist =
  img_uri :: "string option"
  img_program_id :: int
  img_bandwidth :: int
  img_average_bandwidth :: int
  img_resolution :: "string option"
  img_codecs :: "string option"
  img_pathway_id :: "string option"
  img_stable_variant_id :: "string option"

record M3U8Media =
  media_type :: "string option"
  media_uri :: "string option"
  media_group_id :: "string option"
  media_language :: "string option"
  media_assoc_language :: "string option"
  media_name :: "string option"
  media_default_val :: "string option"
  media_autoselect :: "string option"
  media_forced :: "string option"
  media_instream_id :: "string option"
  media_characteristics :: "string option"
  media_channels :: "string option"
  media_stable_rendition_id :: "string option"

record M3U8RenditionReport =
  rr_uri :: "string option"
  rr_last_msn :: int
  rr_last_part :: int
  rr_has_last_msn :: bool
  rr_has_last_part :: bool

record M3U8SessionData =
  sd_data_id :: "string option"
  sd_value :: "string option"
  sd_uri :: "string option"
  sd_language :: "string option"

record M3U8Tiles =
  tiles_resolution :: "string option"
  tiles_layout :: "string option"
  tiles_duration :: cdouble
  tiles_uri :: "string option"

record M3U8Data =
  targetduration :: int
  media_sequence :: int
  discontinuity_sequence :: int
  version :: int
  allow_cache :: "string option"
  playlist_type :: "string option"
  program_date_time :: "string option"
  is_variant :: bool
  is_endlist :: bool
  is_i_frames_only :: bool
  is_independent_segments :: bool
  is_images_only :: bool
  has_media_sequence :: bool
  start_time_offset :: cdouble
  has_start :: bool
  start_precise :: "string option"
  server_control_can_block_reload :: "string option"
  server_control_hold_back :: cdouble
  server_control_part_hold_back :: cdouble
  server_control_can_skip_until :: cdouble
  server_control_can_skip_dateranges :: "string option"
  has_server_control :: bool
  part_inf_part_target :: cdouble
  has_part_inf :: bool
  skip_skipped_segments :: int
  skip_recently_removed_dateranges :: "string option"
  has_skip :: bool
  preload_hint_type :: "string option"
  preload_hint_uri :: "string option"
  preload_hint_byterange_start :: int
  preload_hint_byterange_length :: int
  has_preload_hint :: bool
  has_preload_hint_byterange_start :: bool
  has_preload_hint_byterange_length :: bool
  content_steering_server_uri :: "string option"
  content_steering_pathway_id :: "string option"
  has_content_steering :: bool
  segments :: "M3U8Segment list"
  playlists :: "M3U8Playlist list"
  iframe_playlists :: "M3U8IFramePlaylist list"
  image_playlists :: "M3U8ImagePlaylist list"
  media :: "M3U8Media list"
  keys :: "M3U8Key list"
  session_keys :: "M3U8Key list"
  segment_map :: "M3U8Map list"
  rendition_reports :: "M3U8RenditionReport list"
  session_data :: "M3U8SessionData list"
  tiles :: "M3U8Tiles list"

record ParserState =
  st_expect_segment :: bool
  st_expect_playlist :: bool
  st_current_segment :: "M3U8Segment option"
  st_current_key :: "nat option"
  st_current_map :: "nat option"
  st_cue_out :: bool
  st_cue_out_start :: bool
  st_cue_out_explicitly_duration :: bool
  st_cue_in :: bool
  st_discontinuity :: bool
  st_gap :: bool
  st_blackout :: "string option"
  st_current_cue_out_scte35 :: "string option"
  st_current_cue_out_oatcls_scte35 :: "string option"
  st_current_cue_out_duration :: "string option"
  st_current_cue_out_elapsedtime :: "string option"
  st_asset_metadata :: "M3U8Attribute list"
  st_program_date_time :: "string option"
  st_dateranges :: "M3U8DateRange list"
  st_stream_info :: "M3U8Attribute list"

text \<open>What \<^verbatim>\<open>calloc\<close> returns for each struct: every field zero.\<close>

definition new_segment :: M3U8Segment where
  "new_segment =
     \<lparr>seg_duration = zero_double, seg_title = None, seg_uri = None, seg_byterange = None,
      seg_bitrate = 0, seg_discontinuity = False, seg_program_date_time = None,
      seg_cue_in = False, seg_cue_out = False, seg_cue_out_start = False,
      seg_cue_out_explicitly_duration = False, seg_scte35 = None, seg_oatcls_scte35 = None,
      seg_scte35_duration = None, seg_scte35_elapsedtime = None, seg_asset_metadata = [],
      seg_key = None, seg_init_section = None, seg_dateranges = [], seg_gap_tag = False,
      seg_blackout = None, seg_parts = []\<rparr>"

definition new_data :: M3U8Data where
  "new_data =
     \<lparr>targetduration = 0, media_sequence = 0, discontinuity_sequence = 0, version = 0,
      allow_cache = None, playlist_type = None, program_date_time = None,
      is_variant = False, is_endlist = False, is_i_frames_only = False,
      is_independent_segments = False, is_images_only = False, has_media_sequence = False,
      start_time_offset = zero_double, has_start = False, start_precise = None,
      server_control_can_block_reload = None, server_control_hold_back = zero_double,
      server_control_part_hold_back = zero_double,
      server_control_can_skip_until = zero_double,
      server_control_can_skip_dateranges = None, has_server_control = False,
      part_inf_part_target = zero_double, has_part_inf = False,
      skip_skipped_segments = 0, skip_recently_removed_dateranges = None, has_skip = False,
      preload_hint_type = None, preload_hint_uri = None, preload_hint_byterange_start = 0,
      preload_hint_byterange_length = 0, has_preload_hint = False,
      has_preload_hint_byterange_start = False, has_preload_hint_byterange_length = False,
      content_steering_server_uri = None, content_steering_pathway_id = None,
      has_content_steering = False,
      segments = [], playlists = [], iframe_playlists = [], image_playlists = [],
      media = [], keys = [], session_keys = [], segment_map = [], rendition_reports = [],
      session_data = [], tiles = []\<rparr>"

text \<open>\<^verbatim>\<open>ParserState state = {0}\<close>.\<close>

definition new_state :: ParserState where
  "new_state =
     \<lparr>st_expect_segment = False, st_expect_playlist = False, st_current_segment = None,
      st_current_key = None, st_current_map = None, st_cue_out = False,
      st_cue_out_start = False, st_cue_out_explicitly_duration = False, st_cue_in = False,
      st_discontinuity = False, st_gap = False, st_blackout = None,
      st_current_cue_out_scte35 = None, st_current_cue_out_oatcls_scte35 = None,
      st_current_cue_out_duration = None, st_current_cue_out_elapsedtime = None,
      st_asset_metadata = [], st_program_date_time = None, st_dateranges = [],
      st_stream_info = []\<rparr>"

section \<open>Tag handlers\<close>

text \<open>
  A handler receives \<^verbatim>\<open>(line, len)\<close>: \<open>line\<close> is the buffer from the first byte of the
  line on and \<open>len\<close> the trimmed length of the line.  \<^verbatim>\<open>line + k\<close> is \<open>drop k line\<close>;
  the conversions \<^verbatim>\<open>atoi\<close>, \<^verbatim>\<open>strtoll\<close> and \<^verbatim>\<open>strtod\<close> applied to it read on to the
  end of the number, past the end of the line if the text leads there.  The parameters of
  a tag, \<^verbatim>\<open>(line + k, len - k)\<close>, are the slice below.
\<close>

definition params :: "string \<Rightarrow> nat \<Rightarrow> nat \<Rightarrow> string" where
  "params line len k = take (len - k) (drop k line)"

text \<open>The value of a scalar tag: blanks skipped up to the end of the line, the rest
  copied.\<close>

definition scalar_value :: "string \<Rightarrow> nat \<Rightarrow> nat \<Rightarrow> string" where
  "scalar_value line len k = (let v = skip_ws (params line len k) in str_ndup v (length v))"

definition handle_targetduration :: "M3U8Data \<Rightarrow> string \<Rightarrow> nat \<Rightarrow> M3U8Data" where
  "handle_targetduration data line len = data\<lparr>targetduration := atoi (drop 22 line)\<rparr>"

definition handle_media_sequence :: "M3U8Data \<Rightarrow> string \<Rightarrow> nat \<Rightarrow> M3U8Data" where
  "handle_media_sequence data line len =
     data\<lparr>media_sequence := strtoll (drop 22 line), has_media_sequence := True\<rparr>"

definition handle_discontinuity_sequence :: "M3U8Data \<Rightarrow> string \<Rightarrow> nat \<Rightarrow> M3U8Data" where
  "handle_discontinuity_sequence data line len =
     data\<lparr>discontinuity_sequence := strtoll (drop 30 line)\<rparr>"

definition handle_version :: "M3U8Data \<Rightarrow> string \<Rightarrow> nat \<Rightarrow> M3U8Data" where
  "handle_version data line len = data\<lparr>version := atoi (drop 15 line)\<rparr>"

definition handle_allow_cache :: "M3U8Data \<Rightarrow> string \<Rightarrow> nat \<Rightarrow> M3U8Data" where
  "handle_allow_cache data line len =
     data\<lparr>allow_cache := Some (map c_tolower (scalar_value line len 19))\<rparr>"

definition handle_playlist_type :: "M3U8Data \<Rightarrow> string \<Rightarrow> nat \<Rightarrow> M3U8Data" where
  "handle_playlist_type data line len =
     data\<lparr>playlist_type := Some (map c_tolower (scalar_value line len 21))\<rparr>"

definition handle_program_date_time ::
  "M3U8Data \<Rightarrow> ParserState \<Rightarrow> string \<Rightarrow> nat \<Rightarrow> M3U8Data \<times> ParserState" where
  "handle_program_date_time data state line len =
     (let v = scalar_value line len 25
      in (if program_date_time data = None then data\<lparr>program_date_time := Some v\<rparr> else data,
          state\<lparr>st_program_date_time := Some v\<rparr>))"

definition handle_endlist :: "M3U8Data \<Rightarrow> M3U8Data" where
  "handle_endlist data = data\<lparr>is_endlist := True\<rparr>"

definition handle_i_frames_only :: "M3U8Data \<Rightarrow> M3U8Data" where
  "handle_i_frames_only data = data\<lparr>is_i_frames_only := True\<rparr>"

definition handle_independent_segments :: "M3U8Data \<Rightarrow> M3U8Data" where
  "handle_independent_segments data = data\<lparr>is_independent_segments := True\<rparr>"

definition handle_images_only :: "M3U8Data \<Rightarrow> M3U8Data" where
  "handle_images_only data = data\<lparr>is_images_only := True\<rparr>"

definition handle_discontinuity :: "ParserState \<Rightarrow> ParserState" where
  "handle_discontinuity state = state\<lparr>st_discontinuity := True\<rparr>"

definition handle_gap :: "ParserState \<Rightarrow> ParserState" where
  "handle_gap state = state\<lparr>st_gap := True\<rparr>"

definition handle_cue_in :: "ParserState \<Rightarrow> ParserState" where
  "handle_cue_in state = state\<lparr>st_cue_in := True\<rparr>"

definition handle_cue_span :: "ParserState \<Rightarrow> ParserState" where
  "handle_cue_span state = state\<lparr>st_cue_out := True\<rparr>"

definition handle_blackout :: "ParserState \<Rightarrow> string \<Rightarrow> nat \<Rightarrow> ParserState" where
  "handle_blackout state line len =
     (case memchr line (CHR '':'') len of
        Some colon \<Rightarrow>
          state\<lparr>st_blackout := Some (str_ndup (drop (colon + 1) line) (len - colon - 1))\<rparr>
      | None \<Rightarrow> state\<lparr>st_blackout := Some (str_dup ''__BLACKOUT_TRUE__'')\<rparr>)"

text \<open>The five fields of a key, all with their quotes removed.\<close>

definition make_key :: "M3U8Attribute list \<Rightarrow> M3U8Key" where
  "make_key attrs =
     \<lparr>key_method = get_attr_str_unquoted attrs ''method'',
      key_uri = get_attr_str_unquoted attrs ''uri'',
      key_iv = get_attr_str_unquoted attrs ''iv'',
      key_keyformat = get_attr_str_unquoted attrs ''keyformat'',
      key_keyformatversions = get_attr_str_unquoted attrs ''keyformatversions''\<rparr>"

text \<open>\<^verbatim>\<open>handle_key\<close> appends the new key to \<^verbatim>\<open>data->keys\<close> and makes it the current key:
  the pointer to it is its position, the length of the chain before the append.\<close>

definition handle_key ::
  "M3U8Data \<Rightarrow> ParserState \<Rightarrow> string \<Rightarrow> nat \<Rightarrow> M3U8Data \<times> ParserState" where
  "handle_key data state line len =
     (let attrs = parse_attributes (params line len 11);
          key = make_key attrs
      in (data\<lparr>keys := keys data @ [key]\<rparr>,
          state\<lparr>st_current_key := Some (length (keys data))\<rparr>))"

definition handle_session_key :: "M3U8Data \<Rightarrow> string \<Rightarrow> nat \<Rightarrow> M3U8Data" where
  "handle_session_key data line len =
     (let attrs = parse_attributes (params line len 19)
      in data\<lparr>session_keys := session_keys data @ [make_key attrs]\<rparr>)"

definition make_map :: "M3U8Attribute list \<Rightarrow> M3U8Map" where
  "make_map attrs =
     \<lparr>map_uri = get_attr_str_unquoted attrs ''uri'',
      map_byterange = get_attr_str_unquoted attrs ''byterange''\<rparr>"

definition handle_map ::
  "M3U8Data \<Rightarrow> ParserState \<Rightarrow> string \<Rightarrow> nat \<Rightarrow> M3U8Data \<times> ParserState" where
  "handle_map data state line len =
     (let attrs = parse_attributes (params line len 11);
          m = make_map attrs
      in (data\<lparr>segment_map := segment_map data @ [m]\<rparr>,
          state\<lparr>st_current_map := Some (length (segment_map data))\<rparr>))"

text \<open>\<^verbatim>\<open>if (!state->current_segment) state->current_segment = calloc(...)\<close>.\<close>

definition ensure_segment :: "ParserState \<Rightarrow> M3U8Segment" where
  "ensure_segment state =
     (case st_current_segment state of None \<Rightarrow> new_segment | Some seg \<Rightarrow> seg)"

text \<open>The title of \<^verbatim>\<open>#EXTINF\<close>: what follows the first comma of the line and the blanks
  after it, when anything does.\<close>

definition extinf_title :: "string \<Rightarrow> nat \<Rightarrow> string option" where
  "extinf_title line len =
     (case memchr (drop 8 line) (CHR '','') (len - 8) of
        None \<Rightarrow> None
      | Some comma \<Rightarrow>
          (let t = skip_ws (params line len (8 + comma + 1))
           in if 0 < length t then Some (str_ndup t (length t)) else None))"

definition handle_extinf :: "ParserState \<Rightarrow> string \<Rightarrow> nat \<Rightarrow> ParserState" where
  "handle_extinf state line len =
     (let seg = ensure_segment state;
          seg1 = seg\<lparr>seg_duration := strtod (drop 8 line)\<rparr>;
          seg2 = (case extinf_title line len of
                    None \<Rightarrow> seg1
                  | Some t \<Rightarrow> seg1\<lparr>seg_title := Some t\<rparr>)
      in state\<lparr>st_current_segment := Some seg2, st_expect_segment := True\<rparr>)"

definition handle_byterange :: "ParserState \<Rightarrow> string \<Rightarrow> nat \<Rightarrow> ParserState" where
  "handle_byterange state line len =
     (let seg = ensure_segment state
      in state\<lparr>st_current_segment :=
                  Some (seg\<lparr>seg_byterange := Some (str_ndup (drop 17 line) (len - 17))\<rparr>),
                st_expect_segment := True\<rparr>)"

definition handle_bitrate :: "ParserState \<Rightarrow> string \<Rightarrow> nat \<Rightarrow> ParserState" where
  "handle_bitrate state line len =
     (let seg = ensure_segment state
      in state\<lparr>st_current_segment := Some (seg\<lparr>seg_bitrate := atoi (drop 15 line)\<rparr>)\<rparr>)"

text \<open>
  The scan of \<^verbatim>\<open>handle_cue_out\<close> for the word DURATION: at each offset the byte is taken
  to upper case and compared with \<open>D\<close>, and where at least eight bytes remain the text is
  compared (\<^verbatim>\<open>strncmp\<close>, eight bytes) with \<^verbatim>\<open>"DURATION"\<close> and with \<^verbatim>\<open>"duration"\<close>.
  The arguments are \<^verbatim>\<open>line + i\<close> and \<^verbatim>\<open>len - i\<close>.
\<close>

definition c_toupper_ascii :: "char \<Rightarrow> char" where
  "c_toupper_ascii c =
     (if (97::nat) \<le> of_char c \<and> (of_char c :: nat) \<le> 122
      then char_of ((of_char c :: nat) - 32) else c)"

fun duration_keyword :: "string \<Rightarrow> nat \<Rightarrow> bool" where
  "duration_keyword [] n = False"
| "duration_keyword (c # cs) n =
     (if n = 0 then False
      else if c_toupper_ascii c = CHR ''D'' \<and> 8 \<le> n \<and>
              (take 8 (c # cs) = ''DURATION'' \<or> take 8 (c # cs) = ''duration'')
      then True
      else duration_keyword cs (n - 1))"

definition handle_cue_out :: "ParserState \<Rightarrow> string \<Rightarrow> nat \<Rightarrow> ParserState" where
  "handle_cue_out state line len =
     (let s1 = state\<lparr>st_cue_out_start := True, st_cue_out := True\<rparr>;
          s2 = (if 12 < len \<and> duration_keyword line len
                then s1\<lparr>st_cue_out_explicitly_duration := True\<rparr> else s1)
      in case memchr line (CHR '':'') len of
           None \<Rightarrow> s2
         | Some colon \<Rightarrow>
             if colon < len - 1 then
               (let attrs = parse_attributes (params line len (colon + 1));
                    s3 = (case get_attr_str_unquoted attrs ''cue'' of
                            Some cue \<Rightarrow> s2\<lparr>st_current_cue_out_scte35 := Some cue\<rparr>
                          | None \<Rightarrow> s2);
                    duration = (case get_attr attrs ''duration'' of
                                  Some d \<Rightarrow> Some d
                                | None \<Rightarrow> get_attr attrs [])
                in case duration of
                     Some d \<Rightarrow> s3\<lparr>st_current_cue_out_duration := Some (str_dup d)\<rparr>
                   | None \<Rightarrow> s3)
             else s2)"

text \<open>\<^verbatim>\<open>strchr(s, c)\<close> on a C string: the offset of the first \<open>c\<close>.\<close>

definition strchr :: "string \<Rightarrow> char \<Rightarrow> nat option" where
  "strchr s c = memchr s c (length s)"

definition handle_cue_out_cont :: "ParserState \<Rightarrow> string \<Rightarrow> nat \<Rightarrow> ParserState" where
  "handle_cue_out_cont state line len =
     (let s1 = state\<lparr>st_cue_out := True\<rparr>
      in case memchr line (CHR '':'') len of
           None \<Rightarrow> s1
         | Some colon \<Rightarrow>
             (let attrs = parse_attributes (params line len (colon + 1));
                  s2 = (case get_attr attrs [] of
                          None \<Rightarrow> s1
                        | Some bare \<Rightarrow>
                            (case strchr bare (CHR ''/'') of
                               Some slash \<Rightarrow>
                                 s1\<lparr>st_current_cue_out_elapsedtime := Some (str_ndup bare slash),
                                    st_current_cue_out_duration :=
                                      Some (str_dup (drop (slash + 1) bare))\<rparr>
                             | None \<Rightarrow> s1\<lparr>st_current_cue_out_duration := Some (str_dup bare)\<rparr>));
                  s3 = (case get_attr_str_unquoted attrs ''duration'' of
                          Some d \<Rightarrow> s2\<lparr>st_current_cue_out_duration := Some d\<rparr>
                        | None \<Rightarrow> s2);
                  s4 = (case get_attr_str_unquoted attrs ''scte35'' of
                          Some c \<Rightarrow> s3\<lparr>st_current_cue_out_scte35 := Some c\<rparr>
                        | None \<Rightarrow> s3)
              in case get_attr_str_unquoted attrs ''elapsedtime'' of
                   Some e \<Rightarrow> s4\<lparr>st_current_cue_out_elapsedtime := Some e\<rparr>
                 | None \<Rightarrow> s4))"

definition handle_oatcls_scte35 :: "ParserState \<Rightarrow> string \<Rightarrow> nat \<Rightarrow> ParserState" where
  "handle_oatcls_scte35 state line len =
     (case memchr line (CHR '':'') len of
        None \<Rightarrow> state
      | Some colon \<Rightarrow>
          (let v = str_ndup (drop (colon + 1) line) (len - (colon + 1));
               s1 = state\<lparr>st_current_cue_out_oatcls_scte35 := Some v\<rparr>
           in if st_current_cue_out_scte35 s1 = None
              then s1\<lparr>st_current_cue_out_scte35 := Some v\<rparr> else s1))"

definition handle_asset :: "ParserState \<Rightarrow> string \<Rightarrow> nat \<Rightarrow> ParserState" where
  "handle_asset state line len =
     (case memchr line (CHR '':'') len of
        None \<Rightarrow> state
      | Some colon \<Rightarrow>
          state\<lparr>st_asset_metadata := parse_attributes (params line len (colon + 1))\<rparr>)"

text \<open>The test \<^verbatim>\<open>a->key[0] == 'x' && a->key[1] == '_'\<close> on a C string.\<close>

definition is_x_attr :: "M3U8Attribute \<Rightarrow> bool" where
  "is_x_attr a =
     (case fst a of c0 # c1 # _ \<Rightarrow> c0 = CHR ''x'' \<and> c1 = CHR ''_'' | _ \<Rightarrow> False)"

definition make_daterange :: "M3U8Attribute list \<Rightarrow> M3U8DateRange" where
  "make_daterange attrs =
     \<lparr>dr_id = get_attr_str_unquoted attrs ''id'',
      dr_class_name = get_attr_str_unquoted attrs ''class'',
      dr_start_date = get_attr_str_unquoted attrs ''start_date'',
      dr_end_date = get_attr_str_unquoted attrs ''end_date'',
      dr_duration = get_attr_double attrs ''duration'' zero_double,
      dr_planned_duration = get_attr_double attrs ''planned_duration'' zero_double,
      dr_scte35_cmd = get_attr_str attrs ''scte35_cmd'',
      dr_scte35_out = get_attr_str attrs ''scte35_out'',
      dr_scte35_in = get_attr_str attrs ''scte35_in'',
      dr_end_on_next = get_attr_str attrs ''end_on_next'',
      dr_x_attrs = map (\<lambda>a. (str_dup (fst a), str_dup (snd a))) (filter is_x_attr attrs)\<rparr>"

text \<open>The new date range goes to the front of the pending list
  (\<^verbatim>\<open>dr->next = state->dateranges\<close>).\<close>

definition handle_daterange :: "ParserState \<Rightarrow> string \<Rightarrow> nat \<Rightarrow> ParserState" where
  "handle_daterange state line len =
     (let attrs = parse_attributes (params line len 17)
      in state\<lparr>st_dateranges := make_daterange attrs # st_dateranges state\<rparr>)"

definition handle_stream_inf ::
  "M3U8Data \<Rightarrow> ParserState \<Rightarrow> string \<Rightarrow> nat \<Rightarrow> M3U8Data \<times> ParserState" where
  "handle_stream_inf data state line len =
     (data\<lparr>is_variant := True, has_media_sequence := False\<rparr>,
      state\<lparr>st_stream_info := parse_attributes (params line len 18),
            st_expect_playlist := True\<rparr>)"

definition handle_i_frame_stream_inf :: "M3U8Data \<Rightarrow> string \<Rightarrow> nat \<Rightarrow> M3U8Data" where
  "handle_i_frame_stream_inf data line len =
     (let attrs = parse_attributes (params line len 26);
          pl = \<lparr>ifr_uri = get_attr_str_unquoted attrs ''uri'',
                ifr_program_id = get_attr_int attrs ''program_id'' 0,
                ifr_bandwidth = get_attr_ll attrs ''bandwidth'' 0,
                ifr_average_bandwidth = get_attr_ll attrs ''average_bandwidth'' 0,
                ifr_resolution = get_attr_str attrs ''resolution'',
                ifr_codecs = get_attr_str_unquoted attrs ''codecs'',
                ifr_video_range = get_attr_str_unquoted attrs ''video_range'',
                ifr_hdcp_level = get_attr_str attrs ''hdcp_level'',
                ifr_pathway_id = get_attr_str_unquoted attrs ''pathway_id'',
                ifr_stable_variant_id = get_attr_str_unquoted attrs ''stable_variant_id''\<rparr>
      in data\<lparr>iframe_playlists := iframe_playlists data @ [pl]\<rparr>)"

definition handle_image_stream_inf :: "M3U8Data \<Rightarrow> string \<Rightarrow> nat \<Rightarrow> M3U8Data" where
  "handle_image_stream_inf data line len =
     (let attrs = parse_attributes (params line len 24);
          pl = \<lparr>img_uri = get_attr_str_unquoted attrs ''uri'',
                img_program_id = get_attr_int attrs ''program_id'' 0,
                img_bandwidth = get_attr_ll attrs ''bandwidth'' 0,
                img_average_bandwidth = get_attr_ll attrs ''average_bandwidth'' 0,
                img_resolution = get_attr_str attrs ''resolution'',
                img_codecs = get_attr_str_unquoted attrs ''codecs'',
                img_pathway_id = get_attr_str_unquoted attrs ''pathway_id'',
                img_stable_variant_id = get_attr_str_unquoted attrs ''stable_variant_id''\<rparr>
      in data\<lparr>image_playlists := image_playlists data @ [pl]\<rparr>)"

definition handle_media :: "M3U8Data \<Rightarrow> string \<Rightarrow> nat \<Rightarrow> M3U8Data" where
  "handle_media data line len =
     (let attrs = parse_attributes (params line len 13);
          m = \<lparr>media_type = get_attr_str attrs ''type'',
               media_uri = get_attr_str_unquoted attrs ''uri'',
               media_group_id = get_attr_str_unquoted attrs ''group_id'',
               media_language = get_attr_str_unquoted attrs ''language'',
               media_assoc_language = get_attr_str_unquoted attrs ''assoc_language'',
               media_name = get_attr_str_unquoted attrs ''name'',
               media_default_val = get_attr_str attrs ''default'',
               media_autoselect = get_attr_str attrs ''autoselect'',
               media_forced = get_attr_str attrs ''forced'',
               media_instream_id = get_attr_str_unquoted attrs ''instream_id'',
               media_characteristics = get_attr_str_unquoted attrs ''characteristics'',
               media_channels = get_attr_str_unquoted attrs ''channels'',
               media_stable_rendition_id = get_attr_str_unquoted attrs ''stable_rendition_id''\<rparr>
      in data\<lparr>media := media data @ [m]\<rparr>)"

definition handle_start :: "M3U8Data \<Rightarrow> string \<Rightarrow> nat \<Rightarrow> M3U8Data" where
  "handle_start data line len =
     (let attrs = parse_attributes (params line len 13)
      in data\<lparr>start_time_offset := get_attr_double attrs ''time_offset'' zero_double,
              start_precise := get_attr_str attrs ''precise'',
              has_start := True\<rparr>)"

definition handle_server_control :: "M3U8Data \<Rightarrow> string \<Rightarrow> nat \<Rightarrow> M3U8Data" where
  "handle_server_control data line len =
     (let attrs = parse_attributes (params line len 22)
      in data\<lparr>server_control_can_block_reload := get_attr_str attrs ''can_block_reload'',
              server_control_hold_back := get_attr_double attrs ''hold_back'' zero_double,
              server_control_part_hold_back :=
                get_attr_double attrs ''part_hold_back'' zero_double,
              server_control_can_skip_until :=
                get_attr_double attrs ''can_skip_until'' zero_double,
              server_control_can_skip_dateranges :=
                get_attr_str attrs ''can_skip_dateranges'',
              has_server_control := True\<rparr>)"

definition handle_part_inf :: "M3U8Data \<Rightarrow> string \<Rightarrow> nat \<Rightarrow> M3U8Data" where
  "handle_part_inf data line len =
     (let attrs = parse_attributes (params line len 16)
      in data\<lparr>part_inf_part_target := get_attr_double attrs ''part_target'' zero_double,
              has_part_inf := True\<rparr>)"

definition handle_skip :: "M3U8Data \<Rightarrow> string \<Rightarrow> nat \<Rightarrow> M3U8Data" where
  "handle_skip data line len =
     (let attrs = parse_attributes (params line len 12)
      in data\<lparr>skip_skipped_segments := get_attr_int attrs ''skipped_segments'' 0,
              skip_recently_removed_dateranges :=
                get_attr_str_unquoted attrs ''recently_removed_dateranges'',
              has_skip := True\<rparr>)"

definition handle_rendition_report :: "M3U8Data \<Rightarrow> string \<Rightarrow> nat \<Rightarrow> M3U8Data" where
  "handle_rendition_report data line len =
     (let attrs = parse_attributes (params line len 24);
          last_msn = get_attr attrs ''last_msn'';
          last_part = get_attr attrs ''last_part'';
          rr = \<lparr>rr_uri = get_attr_str_unquoted attrs ''uri'',
                rr_last_msn = (case last_msn of Some v \<Rightarrow> strtoll v | None \<Rightarrow> 0),
                rr_last_part = (case last_part of Some v \<Rightarrow> strtoll v | None \<Rightarrow> 0),
                rr_has_last_msn = (last_msn \<noteq> None),
                rr_has_last_part = (last_part \<noteq> None)\<rparr>
      in data\<lparr>rendition_reports := rendition_reports data @ [rr]\<rparr>)"

definition handle_session_data :: "M3U8Data \<Rightarrow> string \<Rightarrow> nat \<Rightarrow> M3U8Data" where
  "handle_session_data data line len =
     (let attrs = parse_attributes (params line len 20);
          sd = \<lparr>sd_data_id = get_attr_str_unquoted attrs ''data_id'',
                sd_value = get_attr_str_unquoted attrs ''value'',
                sd_uri = get_attr_str_unquoted attrs ''uri'',
                sd_language = get_attr_str_unquoted attrs ''language''\<rparr>
      in data\<lparr>session_data := session_data data @ [sd]\<rparr>)"

definition handle_preload_hint :: "M3U8Data \<Rightarrow> string \<Rightarrow> nat \<Rightarrow> M3U8Data" where
  "handle_preload_hint data line len =
     (let attrs = parse_attributes (params line len 20);
          d1 = data\<lparr>preload_hint_type := get_attr_str attrs ''type'',
                    preload_hint_uri := get_attr_str_unquoted attrs ''uri''\<rparr>;
          d2 = (case get_attr attrs ''byterange_start'' of
                  Some bs \<Rightarrow> d1\<lparr>preload_hint_byterange_start := atoi bs,
                                has_preload_hint_byterange_start := True\<rparr>
                | None \<Rightarrow> d1);
          d3 = (case get_attr attrs ''byterange_length'' of
                  Some bl \<Rightarrow> d2\<lparr>preload_hint_byterange_length := atoi bl,
                                has_preload_hint_byterange_length := True\<rparr>
                | None \<Rightarrow> d2)
      in d3\<lparr>has_preload_hint := True\<rparr>)"

definition handle_content_steering :: "M3U8Data \<Rightarrow> string \<Rightarrow> nat \<Rightarrow> M3U8Data" where
  "handle_content_steering data line len =
     (let attrs = parse_attributes (params line len 24)
      in data\<lparr>content_steering_server_uri := get_attr_str_unquoted attrs ''server_uri'',
              content_steering_pathway_id := get_attr_str_unquoted attrs ''pathway_id'',
              has_content_steering := True\<rparr>)"

definition handle_tiles :: "M3U8Data \<Rightarrow> string \<Rightarrow> nat \<Rightarrow> M3U8Data" where
  "handle_tiles data line len =
     (let attrs = parse_attributes (params line len 13);
          t = \<lparr>tiles_resolution = get_attr_str attrs ''resolution'',
               tiles_layout = get_attr_str attrs ''layout'',
               tiles_duration = get_attr_double attrs ''duration'' zero_double,
               tiles_uri = get_attr_str_unquoted attrs ''uri''\<rparr>
      in data\<lparr>tiles := tiles data @ [t]\<rparr>)"

text \<open>\<^verbatim>\<open>handle_part\<close>: the part takes the pending date ranges and the gap flag, both
  cleared on the state, and joins the parts of the segment in progress.\<close>

definition handle_part :: "ParserState \<Rightarrow> string \<Rightarrow> nat \<Rightarrow> ParserState" where
  "handle_part state line len =
     (let attrs = parse_attributes (params line len 12);
          part = \<lparr>part_uri = get_attr_str_unquoted attrs ''uri'',
                  part_duration = get_attr_double attrs ''duration'' zero_double,
                  part_byterange = get_attr_str attrs ''byterange'',
                  part_independent = get_attr_str attrs ''independent'',
                  part_gap = get_attr_str attrs ''gap'',
                  part_dateranges = st_dateranges state,
                  part_gap_tag = st_gap state\<rparr>;
          s1 = state\<lparr>st_dateranges := [], st_gap := False\<rparr>;
          seg = ensure_segment s1
      in s1\<lparr>st_current_segment := Some (seg\<lparr>seg_parts := seg_parts seg @ [part]\<rparr>)\<rparr>)"

section \<open>Finalizers\<close>

text \<open>
  \<^verbatim>\<open>finalize_segment\<close>, called at a URI line when \<^verbatim>\<open>expect_segment\<close> is set.  While
  \<^verbatim>\<open>cue_out\<close> is set the segment receives copies (\<^verbatim>\<open>str_dup\<close>) of the four pending
  SCTE-35 strings and of the asset metadata, and the state keeps its own; otherwise the
  segment takes the state's pointers and the state's fields become \<^verbatim>\<open>NULL\<close>.
\<close>

definition copy_attributes :: "M3U8Attribute list \<Rightarrow> M3U8Attribute list" where
  "copy_attributes attrs = map (\<lambda>a. (str_dup (fst a), str_dup (snd a))) attrs"

definition finalize_segment ::
  "M3U8Data \<Rightarrow> ParserState \<Rightarrow> string \<Rightarrow> nat \<Rightarrow> M3U8Data \<times> ParserState" where
  "finalize_segment data state uri uri_len =
     (let seg0 = ensure_segment state;
          seg1 = seg0\<lparr>seg_uri := Some (str_ndup uri uri_len),
                      seg_discontinuity := st_discontinuity state,
                      seg_cue_in := st_cue_in state,
                      seg_cue_out := st_cue_out state,
                      seg_cue_out_start := st_cue_out_start state,
                      seg_cue_out_explicitly_duration := st_cue_out_explicitly_duration state,
                      seg_gap_tag := st_gap state\<rparr>;
          seg2 = (case st_blackout state of
                    Some b \<Rightarrow> seg1\<lparr>seg_blackout := Some (str_dup b)\<rparr>
                  | None \<Rightarrow> seg1);
          seg3 = (case st_program_date_time state of
                    Some t \<Rightarrow> seg2\<lparr>seg_program_date_time := Some (str_dup t)\<rparr>
                  | None \<Rightarrow> seg2);
          s1 = state\<lparr>st_program_date_time := None\<rparr>;
          seg4 = (if st_cue_out s1 then
                    seg3\<lparr>seg_scte35 := map_option str_dup (st_current_cue_out_scte35 s1),
                         seg_oatcls_scte35 :=
                           map_option str_dup (st_current_cue_out_oatcls_scte35 s1),
                         seg_scte35_duration :=
                           map_option str_dup (st_current_cue_out_duration s1),
                         seg_scte35_elapsedtime :=
                           map_option str_dup (st_current_cue_out_elapsedtime s1)\<rparr>
                  else
                    seg3\<lparr>seg_scte35 := st_current_cue_out_scte35 s1,
                         seg_oatcls_scte35 := st_current_cue_out_oatcls_scte35 s1,
                         seg_scte35_duration := st_current_cue_out_duration s1,
                         seg_scte35_elapsedtime := st_current_cue_out_elapsedtime s1\<rparr>);
          s2 = (if st_cue_out s1 then s1
                else s1\<lparr>st_current_cue_out_scte35 := None,
                        st_current_cue_out_oatcls_scte35 := None,
                        st_current_cue_out_duration := None,
                        st_current_cue_out_elapsedtime := None\<rparr>);
          seg5 = (if st_asset_metadata s2 \<noteq> [] then
                    (if st_cue_out s2
                     then seg4\<lparr>seg_asset_metadata := copy_attributes (st_asset_metadata s2)\<rparr>
                     else seg4\<lparr>seg_asset_metadata := st_asset_metadata s2\<rparr>)
                  else seg4);
          s3 = (if st_asset_metadata s2 \<noteq> [] \<and> \<not> st_cue_out s2
                then s2\<lparr>st_asset_metadata := []\<rparr> else s2);
          seg6 = seg5\<lparr>seg_key := st_current_key s3,
                      seg_init_section := st_current_map s3,
                      seg_dateranges := st_dateranges s3\<rparr>;
          s4 = s3\<lparr>st_dateranges := []\<rparr>
      in (data\<lparr>segments := segments data @ [seg6]\<rparr>,
          s4\<lparr>st_current_segment := None,
             st_expect_segment := False,
             st_discontinuity := False,
             st_cue_in := False,
             st_cue_out := False,
             st_cue_out_start := False,
             st_cue_out_explicitly_duration := False,
             st_gap := False,
             st_blackout := None\<rparr>))"

text \<open>
  \<^verbatim>\<open>finalize_playlist\<close>, called at a URI line when \<^verbatim>\<open>expect_playlist\<close> is set and
  \<^verbatim>\<open>expect_segment\<close> is not.  A variant is built and appended only if the staged
  attribute list is not \<^verbatim>\<open>NULL\<close>; the bandwidth is \<^verbatim>\<open>(long long) strtod(bw, NULL)\<close> of the
  raw attribute value.
\<close>

definition make_playlist :: "M3U8Attribute list \<Rightarrow> string \<Rightarrow> nat \<Rightarrow> M3U8Playlist" where
  "make_playlist info uri uri_len =
     \<lparr>pl_uri = Some (str_ndup uri uri_len),
      pl_program_id = get_attr_int info ''program_id'' 0,
      pl_bandwidth = (case get_attr info ''bandwidth'' of
                        Some bw \<Rightarrow> ll_of_double (strtod bw)
                      | None \<Rightarrow> 0),
      pl_average_bandwidth = get_attr_ll info ''average_bandwidth'' 0,
      pl_resolution = get_attr_str info ''resolution'',
      pl_codecs = get_attr_str_unquoted info ''codecs'',
      pl_frame_rate = get_attr_double info ''frame_rate'' zero_double,
      pl_video = get_attr_str_unquoted info ''video'',
      pl_audio = get_attr_str_unquoted info ''audio'',
      pl_subtitles = get_attr_str_unquoted info ''subtitles'',
      pl_closed_captions = (case get_attr info ''closed_captions'' of
                              Some cc \<Rightarrow> Some (str_dup cc)
                            | None \<Rightarrow> None),
      pl_video_range = get_attr_str_unquoted info ''video_range'',
      pl_hdcp_level = get_attr_str info ''hdcp_level'',
      pl_pathway_id = get_attr_str_unquoted info ''pathway_id'',
      pl_stable_variant_id = get_attr_str_unquoted info ''stable_variant_id'',
      pl_req_video_layout = get_attr_str info ''req_video_layout''\<rparr>"

definition finalize_playlist ::
  "M3U8Data \<Rightarrow> ParserState \<Rightarrow> string \<Rightarrow> nat \<Rightarrow> M3U8Data \<times> ParserState" where
  "finalize_playlist data state uri uri_len =
     ((if st_stream_info state \<noteq> []
       then data\<lparr>playlists := playlists data @ [make_playlist (st_stream_info state) uri uri_len]\<rparr>
       else data),
      state\<lparr>st_stream_info := [], st_expect_playlist := False\<rparr>)"

section \<open>The main parser\<close>

text \<open>
  The body of the loop of \<^verbatim>\<open>m3u8_parse\<close> for one non-empty line: the chain of
  \<^verbatim>\<open>starts_with\<close> tests in the order of the source for a line that begins with \<open>#\<close>, the
  finalizers for any other line.
\<close>

definition dispatch_tag ::
  "M3U8Data \<times> ParserState \<Rightarrow> string \<Rightarrow> nat \<Rightarrow> M3U8Data \<times> ParserState" where
  "dispatch_tag ds cursor line_len =
     (let data = fst ds; state = snd ds in
      if starts_with cursor line_len ''#EXTM3U'' then (data, state)
      else if starts_with cursor line_len ''#EXTINF:''
        then (data, handle_extinf state cursor line_len)
      else if starts_with cursor line_len ''#EXT-X-TARGETDURATION:''
        then (handle_targetduration data cursor line_len, state)
      else if starts_with cursor line_len ''#EXT-X-MEDIA-SEQUENCE:''
        then (handle_media_sequence data cursor line_len, state)
      else if starts_with cursor line_len ''#EXT-X-DISCONTINUITY-SEQUENCE:''
        then (handle_discontinuity_sequence data cursor line_len, state)
      else if starts_with cursor line_len ''#EXT-X-VERSION:''
        then (handle_version data cursor line_len, state)
      else if starts_with cursor line_len ''#EXT-X-ALLOW-CACHE:''
        then (handle_allow_cache data cursor line_len, state)
      else if starts_with cursor line_len ''#EXT-X-PLAYLIST-TYPE:''
        then (handle_playlist_type data cursor line_len, state)
      else if starts_with cursor line_len ''#EXT-X-PROGRAM-DATE-TIME:''
        then handle_program_date_time data state cursor line_len
      else if starts_with cursor line_len ''#EXT-X-ENDLIST''
        then (handle_endlist data, state)
      else if starts_with cursor line_len ''#EXT-X-I-FRAMES-ONLY''
        then (handle_i_frames_only data, state)
      else if starts_with cursor line_len ''#EXT-X-INDEPENDENT-SEGMENTS''
        then (handle_independent_segments data, state)
      else if starts_with cursor line_len ''#EXT-X-IMAGES-ONLY''
        then (handle_images_only data, state)
      else if starts_with cursor line_len ''#EXT-X-DISCONTINUITY'' \<and>
              \<not> starts_with cursor line_len ''#EXT-X-DISCONTINUITY-SEQUENCE''
        then (data, handle_discontinuity state)
      else if starts_with cursor line_len ''#EXT-X-GAP''
        then (data, handle_gap state)
      else if starts_with cursor line_len ''#EXT-X-BLACKOUT''
        then (data, handle_blackout state cursor line_len)
      else if starts_with cursor line_len ''#EXT-X-CUE-IN''
        then (data, handle_cue_in state)
      else if starts_with cursor line_len ''#EXT-X-CUE-SPAN''
        then (data, handle_cue_span state)
      else if starts_with cursor line_len ''#EXT-X-CUE-OUT-CONT''
        then (data, handle_cue_out_cont state cursor line_len)
      else if starts_with cursor line_len ''#EXT-X-CUE-OUT''
        then (data, handle_cue_out state cursor line_len)
      else if starts_with cursor line_len ''#EXT-OATCLS-SCTE35:''
        then (data, handle_oatcls_scte35 state cursor line_len)
      else if starts_with cursor line_len ''#EXT-X-ASSET:''
        then (data, handle_asset state cursor line_len)
      else if starts_with cursor line_len ''#EXT-X-KEY:''
        then handle_key data state cursor line_len
      else if starts_with cursor line_len ''#EXT-X-SESSION-KEY:''
        then (handle_session_key data cursor line_len, state)
      else if starts_with cursor line_len ''#EXT-X-MAP:''
        then handle_map data state cursor line_len
      else if starts_with cursor line_len ''#EXT-X-BYTERANGE:''
        then (data, handle_byterange state cursor line_len)
      else if starts_with cursor line_len ''#EXT-X-BITRATE:''
        then (data, handle_bitrate state cursor line_len)
      else if starts_with cursor line_len ''#EXT-X-DATERANGE:''
        then (data, handle_daterange state cursor line_len)
      else if starts_with cursor line_len ''#EXT-X-STREAM-INF:''
        then handle_stream_inf data state cursor line_len
      else if starts_with cursor line_len ''#EXT-X-I-FRAME-STREAM-INF:''
        then (handle_i_frame_stream_inf data cursor line_len, state)
      else if starts_with cursor line_len ''#EXT-X-IMAGE-STREAM-INF:''
        then (handle_image_stream_inf data cursor line_len, state)
      else if starts_with cursor line_len ''#EXT-X-MEDIA:''
        then (handle_media data cursor line_len, state)
      else if starts_with cursor line_len ''#EXT-X-START:''
        then (handle_start data cursor line_len, state)
      else if starts_with cursor line_len ''#EXT-X-SERVER-CONTROL:''
        then (handle_server_control data cursor line_len, state)
      else if starts_with cursor line_len ''#EXT-X-PART-INF:''
        then (handle_part_inf data cursor line_len, state)
      else if starts_with cursor line_len ''#EXT-X-SKIP:''
        then (handle_skip data cursor line_len, state)
      else if starts_with cursor line_len ''#EXT-X-RENDITION-REPORT:''
        then (handle_rendition_report data cursor line_len, state)
      else if starts_with cursor line_len ''#EXT-X-SESSION-DATA:''
        then (handle_session_data data cursor line_len, state)
      else if starts_with cursor line_len ''#EXT-X-PRELOAD-HINT:''
        then (handle_preload_hint data cursor line_len, state)
      else if starts_with cursor line_len ''#EXT-X-CONTENT-STEERING:''
        then (handle_content_steering data cursor line_len, state)
      else if starts_with cursor line_len ''#EXT-X-TILES:''
        then (handle_tiles data cursor line_len, state)
      else if starts_with cursor line_len ''#EXT-X-PART:''
        then (data, handle_part state cursor line_len)
      else (data, state))"

definition process_uri ::
  "M3U8Data \<times> ParserState \<Rightarrow> string \<Rightarrow> nat \<Rightarrow> M3U8Data \<times> ParserState" where
  "process_uri ds cursor line_len =
     (let data = fst ds; state = snd ds in
      if st_expect_segment state then finalize_segment data state cursor line_len
      else if st_expect_playlist state then finalize_playlist data state cursor line_len
      else (data, state))"

text \<open>A line is the pair \<^verbatim>\<open>(cursor, line_len)\<close>; \<^verbatim>\<open>cursor[0] == '#'\<close> makes it a tag
  line.\<close>

type_synonym line = "string \<times> nat"

definition is_tag_line :: "line \<Rightarrow> bool" where
  "is_tag_line l = (case fst l of [] \<Rightarrow> False | c # _ \<Rightarrow> c = CHR ''#'')"

definition process_line :: "M3U8Data \<times> ParserState \<Rightarrow> line \<Rightarrow> M3U8Data \<times> ParserState" where
  "process_line ds l =
     (if is_tag_line l then dispatch_tag ds (fst l) (snd l)
      else process_uri ds (fst l) (snd l))"

text \<open>\<^verbatim>\<open>find_eol\<close>: the offset of the first line feed or carriage return, or of the end
  of the buffer.\<close>

definition is_eol :: "char \<Rightarrow> bool" where
  "is_eol c = (c = CHR 0x0A \<or> c = CHR 0x0D)"

definition find_eol :: "string \<Rightarrow> nat" where
  "find_eol s = length (takeWhile (\<lambda>c. \<not> is_eol c) s)"

text \<open>The trailing trim of a line: spaces, tabs and carriage returns.\<close>

definition is_trailing :: "char \<Rightarrow> bool" where
  "is_trailing c = (c = CHR '' '' \<or> c = CHR 0x09 \<or> c = CHR 0x0D)"

definition trim_line :: "string \<Rightarrow> nat \<Rightarrow> nat" where
  "trim_line cursor n = length (dropWhile is_trailing (rev (take n cursor)))"

text \<open>The end of an iteration: \<^verbatim>\<open>if (*cursor == '\r') cursor++; if (*cursor == '\n')
  cursor++\<close>, each within the buffer.\<close>

definition skip_char :: "char \<Rightarrow> string \<Rightarrow> string" where
  "skip_char c s = (case s of [] \<Rightarrow> [] | x # xs \<Rightarrow> if x = c then xs else x # xs)"

definition next_line :: "string \<Rightarrow> string" where
  "next_line s = skip_char (CHR 0x0A) (skip_char (CHR 0x0D) s)"

text \<open>The \<^verbatim>\<open>while (cursor < end)\<close> loop of \<^verbatim>\<open>m3u8_parse\<close>; \<open>cursor\<close> is the buffer from
  the cursor to \<^verbatim>\<open>end\<close>.\<close>

function parse_loop :: "M3U8Data \<times> ParserState \<Rightarrow> string \<Rightarrow> M3U8Data \<times> ParserState" where
  "parse_loop ds cursor =
     (if cursor = [] then ds
      else
        let c1 = skip_ws cursor in
        if c1 = [] then ds
        else
          let eol = find_eol c1; line_len = trim_line c1 eol in
          if line_len = 0 then parse_loop ds (drop (eol + 1) c1)
          else parse_loop (process_line ds (c1, line_len)) (next_line (drop eol c1)))"
  by pat_completeness auto

lemma length_skip_char: "length (skip_char c s) \<le> length s"
  by (cases s) (auto simp: skip_char_def)

lemma length_next_line: "length (next_line s) \<le> length s"
  unfolding next_line_def
  using length_skip_char[of "CHR 0x0A" "skip_char (CHR 0x0D) s"] length_skip_char[of "CHR 0x0D" s]
  by linarith

lemma trim_line_le: "trim_line cursor n \<le> n"
proof -
  have "length (dropWhile is_trailing (rev (take n cursor))) \<le> length (rev (take n cursor))"
    by (rule length_dropWhile_le)
  then show ?thesis by (simp add: trim_line_def)
qed

termination parse_loop
proof (relation "measure (\<lambda>(ds, cursor). length cursor)", goal_cases)
  case 1
  show ?case by simp
next
  case (2 ds cursor c1 eol line_len)
  then have "0 < length c1" by simp
  then have "length (drop (eol + 1) c1) < length c1" by simp
  moreover have "length c1 \<le> length cursor" using 2 length_skip_ws[of cursor] by simp
  ultimately have "length (drop (eol + 1) c1) < length cursor" by linarith
  then show ?case by simp
next
  case (3 ds cursor c1 eol line_len)
  then have "0 < eol" using trim_line_le[of c1 eol] by simp
  moreover have "eol \<le> length c1"
    using 3 by (simp add: find_eol_def length_takeWhile_le)
  ultimately have "length (drop eol c1) < length c1" by simp
  moreover have "length c1 \<le> length cursor" using 3 length_skip_ws[of cursor] by simp
  ultimately have "length (next_line (drop eol c1)) < length cursor"
    using length_next_line[of "drop eol c1"] by linarith
  then show ?case by simp
qed

declare parse_loop.simps [simp del]

text \<open>The loop at the end of \<^verbatim>\<open>m3u8_parse\<close> that frees the date ranges no segment
  took, one per iteration, until \<^verbatim>\<open>state.dateranges\<close> is \<^verbatim>\<open>NULL\<close>.\<close>

fun free_pending_dateranges :: "M3U8DateRange list \<Rightarrow> M3U8DateRange list" where
  "free_pending_dateranges [] = []"
| "free_pending_dateranges (dr # rest) = free_pending_dateranges rest"

text \<open>
  \<^verbatim>\<open>m3u8_parse\<close> after its first line, on a buffer of at least one byte: the loop, the
  segment still in progress appended as it is, and the clean-up.  The result is the
  document together with the local parser state at the \<^verbatim>\<open>return\<close> (the calls of
  \<^verbatim>\<open>free\<close> change no field of the state).
\<close>

definition parse_buffer :: "string \<Rightarrow> M3U8Data \<times> ParserState" where
  "parse_buffer content =
     (let ds = parse_loop (new_data, new_state) content;
          data = fst ds; state = snd ds;
          data1 = (case st_current_segment state of
                     Some seg \<Rightarrow> data\<lparr>segments := segments data @ [seg]\<rparr>
                   | None \<Rightarrow> data)
      in (data1, state\<lparr>st_dateranges := free_pending_dateranges (st_dateranges state)\<rparr>))"

text \<open>
  \<^verbatim>\<open>m3u8_parse(content, length)\<close>.  The argument is \<open>None\<close> for a null pointer and
  otherwise the \<open>length\<close> bytes at \<open>content\<close>, which the header makes the whole string
  (\<open>length\<close> excludes the terminator); \<open>Some []\<close> is the call with length 0.
\<close>

definition m3u8_parse :: "string option \<Rightarrow> M3U8Data option" where
  "m3u8_parse content =
     (case content of
        None \<Rightarrow> None
      | Some buf \<Rightarrow> if length buf = 0 then None else Some (fst (parse_buffer buf)))"

section \<open>The lines of a buffer\<close>

text \<open>
  Which lines the loop dispatches does not depend on the document or on the state: the
  scanner alone, with the recursion of \<open>parse_loop\<close>, lists them, and the loop is the fold
  of \<open>process_line\<close> over that list.
\<close>

function scan_lines :: "string \<Rightarrow> line list" where
  "scan_lines cursor =
     (if cursor = [] then []
      else
        let c1 = skip_ws cursor in
        if c1 = [] then []
        else
          let eol = find_eol c1; line_len = trim_line c1 eol in
          if line_len = 0 then scan_lines (drop (eol + 1) c1)
          else (c1, line_len) # scan_lines (next_line (drop eol c1)))"
  by pat_completeness auto

termination scan_lines
proof (relation "measure length", goal_cases)
  case 1
  show ?case by simp
next
  case (2 cursor c1 eol line_len)
  then have "0 < length c1" by simp
  then have "length (drop (eol + 1) c1) < length c1" by simp
  moreover have "length c1 \<le> length cursor" using 2 length_skip_ws[of cursor] by simp
  ultimately have "length (drop (eol + 1) c1) < length cursor" by linarith
  then show ?case by simp
next
  case (3 cursor c1 eol line_len)
  then have "0 < eol" using trim_line_le[of c1 eol] by simp
  moreover have "eol \<le> length c1"
    using 3 by (simp add: find_eol_def length_takeWhile_le)
  ultimately have "length (drop eol c1) < length c1" by simp
  moreover have "length c1 \<le> length cursor" using 3 length_skip_ws[of cursor] by simp
  ultimately have "length (next_line (drop eol c1)) < length cursor"
    using length_next_line[of "drop eol c1"] by linarith
  then show ?case by simp
qed

declare scan_lines.simps [simp del]

definition run_lines :: "M3U8Data \<times> ParserState \<Rightarrow> line list \<Rightarrow> M3U8Data \<times> ParserState" where
  "run_lines ds ls = foldl process_line ds ls"

text \<open>The document and the state after the lines \<open>ls\<close> of a parse.\<close>

definition after_lines :: "line list \<Rightarrow> M3U8Data \<times> ParserState" where
  "after_lines ls = run_lines (new_data, new_state) ls"

lemma parse_loop_scan: "parse_loop ds cursor = run_lines ds (scan_lines cursor)"
proof (induction ds cursor rule: parse_loop.induct)
  case (1 ds cursor)
  show ?case
    apply (subst parse_loop.simps)
    apply (subst scan_lines.simps)
    using 1 by (simp add: Let_def run_lines_def)
qed

lemma run_lines_append: "run_lines ds (xs @ ys) = run_lines (run_lines ds xs) ys"
  by (simp add: run_lines_def)

lemma run_lines_snoc: "run_lines ds (xs @ [l]) = process_line (run_lines ds xs) l"
  by (simp add: run_lines_def)

lemma run_lines_Nil: "run_lines ds [] = ds"
  by (simp add: run_lines_def)

lemma after_lines_append: "after_lines (xs @ ys) = run_lines (after_lines xs) ys"
  by (simp add: after_lines_def run_lines_append)

section \<open>Vocabulary of the properties\<close>

text \<open>The prefixes that the dispatcher tests, in its order.\<close>

definition recognized_tags :: "string list" where
  "recognized_tags =
     [''#EXTM3U'', ''#EXTINF:'', ''#EXT-X-TARGETDURATION:'', ''#EXT-X-MEDIA-SEQUENCE:'',
      ''#EXT-X-DISCONTINUITY-SEQUENCE:'', ''#EXT-X-VERSION:'', ''#EXT-X-ALLOW-CACHE:'',
      ''#EXT-X-PLAYLIST-TYPE:'', ''#EXT-X-PROGRAM-DATE-TIME:'', ''#EXT-X-ENDLIST'',
      ''#EXT-X-I-FRAMES-ONLY'', ''#EXT-X-INDEPENDENT-SEGMENTS'', ''#EXT-X-IMAGES-ONLY'',
      ''#EXT-X-DISCONTINUITY'', ''#EXT-X-GAP'', ''#EXT-X-BLACKOUT'', ''#EXT-X-CUE-IN'',
      ''#EXT-X-CUE-SPAN'', ''#EXT-X-CUE-OUT-CONT'', ''#EXT-X-CUE-OUT'',
      ''#EXT-OATCLS-SCTE35:'', ''#EXT-X-ASSET:'', ''#EXT-X-KEY:'', ''#EXT-X-SESSION-KEY:'',
      ''#EXT-X-MAP:'', ''#EXT-X-BYTERANGE:'', ''#EXT-X-BITRATE:'', ''#EXT-X-DATERANGE:'',
      ''#EXT-X-STREAM-INF:'', ''#EXT-X-I-FRAME-STREAM-INF:'', ''#EXT-X-IMAGE-STREAM-INF:'',
      ''#EXT-X-MEDIA:'', ''#EXT-X-START:'', ''#EXT-X-SERVER-CONTROL:'', ''#EXT-X-PART-INF:'',
      ''#EXT-X-SKIP:'', ''#EXT-X-RENDITION-REPORT:'', ''#EXT-X-SESSION-DATA:'',
      ''#EXT-X-PRELOAD-HINT:'', ''#EXT-X-CONTENT-STEERING:'', ''#EXT-X-TILES:'',
      ''#EXT-X-PART:'']"

text \<open>
  The tag lines that reach a given handler.  For most tags the prefix decides, because no
  prefix tested earlier can begin the same line; \<^verbatim>\<open>#EXT-X-CUE-OUT\<close> is tested after
  \<^verbatim>\<open>#EXT-X-CUE-OUT-CONT\<close> and receives only the lines the longer prefix does not match.
\<close>

definition is_key_tag :: "line \<Rightarrow> bool" where
  "is_key_tag l = starts_with (fst l) (snd l) ''#EXT-X-KEY:''"

definition is_map_tag :: "line \<Rightarrow> bool" where
  "is_map_tag l = starts_with (fst l) (snd l) ''#EXT-X-MAP:''"

definition is_daterange_tag :: "line \<Rightarrow> bool" where
  "is_daterange_tag l = starts_with (fst l) (snd l) ''#EXT-X-DATERANGE:''"

definition is_part_tag :: "line \<Rightarrow> bool" where
  "is_part_tag l = starts_with (fst l) (snd l) ''#EXT-X-PART:''"

definition is_stream_inf_tag :: "line \<Rightarrow> bool" where
  "is_stream_inf_tag l = starts_with (fst l) (snd l) ''#EXT-X-STREAM-INF:''"

definition is_cue_span_tag :: "line \<Rightarrow> bool" where
  "is_cue_span_tag l = starts_with (fst l) (snd l) ''#EXT-X-CUE-SPAN''"


definition is_cue_out_tag :: "line \<Rightarrow> bool" where
  "is_cue_out_tag l =
     (starts_with (fst l) (snd l) ''#EXT-X-CUE-OUT'' \<and>
      \<not> starts_with (fst l) (snd l) ''#EXT-X-CUE-OUT-CONT'')"

text \<open>The objects that the handlers of \<^verbatim>\<open>#EXT-X-KEY\<close>, \<^verbatim>\<open>#EXT-X-MAP\<close> and
  \<^verbatim>\<open>#EXT-X-DATERANGE\<close> build from a line.\<close>

definition key_of_line :: "line \<Rightarrow> M3U8Key" where
  "key_of_line l = make_key (parse_attributes (params (fst l) (snd l) 11))"

definition map_of_line :: "line \<Rightarrow> M3U8Map" where
  "map_of_line l = make_map (parse_attributes (params (fst l) (snd l) 11))"

definition daterange_of_line :: "line \<Rightarrow> M3U8DateRange" where
  "daterange_of_line l = make_daterange (parse_attributes (params (fst l) (snd l) 17))"

text \<open>The pointer to the last object of a chain of \<open>n\<close> objects, \<^verbatim>\<open>NULL\<close> for an empty
  chain.\<close>

definition last_ref :: "nat \<Rightarrow> nat option" where
  "last_ref n = (if n = 0 then None else Some (n - 1))"

text \<open>
  A segment in progress has been written by \<open>handle_extinf\<close>, \<open>handle_byterange\<close>,
  \<open>handle_bitrate\<close> and \<open>handle_part\<close> only: apart from the duration, the title, the byte
  range, the bit rate and the parts, its fields are as \<^verbatim>\<open>calloc\<close> left them.
\<close>

definition unfinalized :: "M3U8Segment \<Rightarrow> bool" where
  "unfinalized seg =
     (seg\<lparr>seg_duration := zero_double, seg_title := None, seg_byterange := None,
          seg_bitrate := 0, seg_parts := []\<rparr> = new_segment)"

definition pending_ok :: "ParserState \<Rightarrow> bool" where
  "pending_ok state =
     (case st_current_segment state of None \<Rightarrow> True | Some seg \<Rightarrow> unfinalized seg)"

text \<open>The segment that \<open>finalize_segment\<close> appends.\<close>

definition finalized :: "M3U8Data \<Rightarrow> ParserState \<Rightarrow> string \<Rightarrow> nat \<Rightarrow> M3U8Segment" where
  "finalized d s u n = last (segments (fst (finalize_segment d s u n)))"

text \<open>The characters \<^verbatim>\<open>[a-z0-9_]\<close>, and the characters \<^verbatim>\<open>[A-Za-z0-9_-]\<close> that normalization
  maps into them.\<close>

definition key_char :: "char \<Rightarrow> bool" where
  "key_char c =
     (((97::nat) \<le> of_char c \<and> (of_char c :: nat) \<le> 122) \<or> c_isdigit c \<or> c = CHR ''_'')"

definition raw_key_char :: "char \<Rightarrow> bool" where
  "raw_key_char c = (key_char c \<or> c_isupper c \<or> c = CHR ''-'')"

text \<open>The bytes a key can be read from: those of the text other than \<open>=\<close>, the comma and
  NUL.\<close>

definition key_bytes :: "string \<Rightarrow> char set" where
  "key_bytes p = {r \<in> set p. not_eq_comma r \<and> r \<noteq> NUL}"

text \<open>A line that ends its buffer, and the buffer of the sticky-key scenario, for the
  examples below.\<close>

definition whole_line :: "string \<Rightarrow> line" where
  "whole_line s = (s, length s)"

definition sticky_key_buffer :: string where
  "sticky_key_buffer =
     ''#EXT-X-KEY:METHOD=AES-128,URI=\"k1\"\<newline>#EXTINF:4,\<newline>a.ts\<newline>#EXT-X-KEY:METHOD=NONE\<newline>#EXTINF:4,\<newline>b.ts\<newline>''"

definition pending_segment_buffer :: string where
  "pending_segment_buffer =
     ''#EXT-X-KEY:METHOD=AES-128\<newline>#EXTINF:4,\<newline>a.ts\<newline>#EXT-X-MAP:URI=i.mp4\<newline>#EXTINF:4,\<newline>''"

section \<open>What the handlers leave alone\<close>

text \<open>For each handler, the chains and the state fields (among those the properties
  read) that it does not write.\<close>

lemma handle_targetduration_frame:
  "keys (handle_targetduration d c n) = keys d \<and>
   segment_map (handle_targetduration d c n) = segment_map d \<and>
   segments (handle_targetduration d c n) = segments d \<and>
   playlists (handle_targetduration d c n) = playlists d"
  by (simp add: handle_targetduration_def Let_def split: option.splits)

lemma handle_media_sequence_frame:
  "keys (handle_media_sequence d c n) = keys d \<and>
   segment_map (handle_media_sequence d c n) = segment_map d \<and>
   segments (handle_media_sequence d c n) = segments d \<and>
   playlists (handle_media_sequence d c n) = playlists d"
  by (simp add: handle_media_sequence_def Let_def split: option.splits)

lemma handle_discontinuity_sequence_frame:
  "keys (handle_discontinuity_sequence d c n) = keys d \<and>
   segment_map (handle_discontinuity_sequence d c n) = segment_map d \<and>
   segments (handle_discontinuity_sequence d c n) = segments d \<and>
   playlists (handle_discontinuity_sequence d c n) = playlists d"
  by (simp add: handle_discontinuity_sequence_def Let_def split: option.splits)

lemma handle_version_frame:
  "keys (handle_version d c n) = keys d \<and>
   segment_map (handle_version d c n) = segment_map d \<and>
   segments (handle_version d c n) = segments d \<and>
   playlists (handle_version d c n) = playlists d"
  by (simp add: handle_version_def Let_def split: option.splits)

lemma handle_allow_cache_frame:
  "keys (handle_allow_cache d c n) = keys d \<and>
   segment_map (handle_allow_cache d c n) = segment_map d \<and>
   segments (handle_allow_cache d c n) = segments d \<and>
   playlists (handle_allow_cache d c n) = playlists d"
  by (simp add: handle_allow_cache_def Let_def split: option.splits)

lemma handle_playlist_type_frame:
  "keys (handle_playlist_type d c n) = keys d \<and>
   segment_map (handle_playlist_type d c n) = segment_map d \<and>
   segments (handle_playlist_type d c n) = segments d \<and>
   playlists (handle_playlist_type d c n) = playlists d"
  by (simp add: handle_playlist_type_def Let_def split: option.splits)

lemma handle_session_key_frame:
  "keys (handle_session_key d c n) = keys d \<and>
   segment_map (handle_session_key d c n) = segment_map d \<and>
   segments (handle_session_key d c n) = segments d \<and>
   playlists (handle_session_key d c n) = playlists d"
  by (simp add: handle_session_key_def Let_def split: option.splits)

lemma handle_i_frame_stream_inf_frame:
  "keys (handle_i_frame_stream_inf d c n) = keys d \<and>
   segment_map (handle_i_frame_stream_inf d c n) = segment_map d \<and>
   segments (handle_i_frame_stream_inf d c n) = segments d \<and>
   playlists (handle_i_frame_stream_inf d c n) = playlists d"
  by (simp add: handle_i_frame_stream_inf_def Let_def split: option.splits)

lemma handle_image_stream_inf_frame:
  "keys (handle_image_stream_inf d c n) = keys d \<and>
   segment_map (handle_image_stream_inf d c n) = segment_map d \<and>
   segments (handle_image_stream_inf d c n) = segments d \<and>
   playlists (handle_image_stream_inf d c n) = playlists d"
  by (simp add: handle_image_stream_inf_def Let_def split: option.splits)

lemma handle_media_frame:
  "keys (handle_media d c n) = keys d \<and>
   segment_map (handle_media d c n) = segment_map d \<and>
   segments (handle_media d c n) = segments d \<and>
   playlists (handle_media d c n) = playlists d"
  by (simp add: handle_media_def Let_def split: option.splits)

lemma handle_start_frame:
  "keys (handle_start d c n) = keys d \<and>
   segment_map (handle_start d c n) = segment_map d \<and>
   segments (handle_start d c n) = segments d \<and>
   playlists (handle_start d c n) = playlists d"
  by (simp add: handle_start_def Let_def split: option.splits)

lemma handle_server_control_frame:
  "keys (handle_server_control d c n) = keys d \<and>
   segment_map (handle_server_control d c n) = segment_map d \<and>
   segments (handle_server_control d c n) = segments d \<and>
   playlists (handle_server_control d c n) = playlists d"
  by (simp add: handle_server_control_def Let_def split: option.splits)

lemma handle_part_inf_frame:
  "keys (handle_part_inf d c n) = keys d \<and>
   segment_map (handle_part_inf d c n) = segment_map d \<and>
   segments (handle_part_inf d c n) = segments d \<and>
   playlists (handle_part_inf d c n) = playlists d"
  by (simp add: handle_part_inf_def Let_def split: option.splits)

lemma handle_skip_frame:
  "keys (handle_skip d c n) = keys d \<and>
   segment_map (handle_skip d c n) = segment_map d \<and>
   segments (handle_skip d c n) = segments d \<and>
   playlists (handle_skip d c n) = playlists d"
  by (simp add: handle_skip_def Let_def split: option.splits)

lemma handle_rendition_report_frame:
  "keys (handle_rendition_report d c n) = keys d \<and>
   segment_map (handle_rendition_report d c n) = segment_map d \<and>
   segments (handle_rendition_report d c n) = segments d \<and>
   playlists (handle_rendition_report d c n) = playlists d"
  by (simp add: handle_rendition_report_def Let_def split: option.splits)

lemma handle_session_data_frame:
  "keys (handle_session_data d c n) = keys d \<and>
   segment_map (handle_session_data d c n) = segment_map d \<and>
   segments (handle_session_data d c n) = segments d \<and>
   playlists (handle_session_data d c n) = playlists d"
  by (simp add: handle_session_data_def Let_def split: option.splits)

lemma handle_preload_hint_frame:
  "keys (handle_preload_hint d c n) = keys d \<and>
   segment_map (handle_preload_hint d c n) = segment_map d \<and>
   segments (handle_preload_hint d c n) = segments d \<and>
   playlists (handle_preload_hint d c n) = playlists d"
  by (simp add: handle_preload_hint_def Let_def split: option.splits)

lemma handle_content_steering_frame:
  "keys (handle_content_steering d c n) = keys d \<and>
   segment_map (handle_content_steering d c n) = segment_map d \<and>
   segments (handle_content_steering d c n) = segments d \<and>
   playlists (handle_content_steering d c n) = playlists d"
  by (simp add: handle_content_steering_def Let_def split: option.splits)

lemma handle_tiles_frame:
  "keys (handle_tiles d c n) = keys d \<and>
   segment_map (handle_tiles d c n) = segment_map d \<and>
   segments (handle_tiles d c n) = segments d \<and>
   playlists (handle_tiles d c n) = playlists d"
  by (simp add: handle_tiles_def Let_def split: option.splits)

lemma handle_endlist_frame:
  "keys (handle_endlist d) = keys d \<and>
   segment_map (handle_endlist d) = segment_map d \<and>
   segments (handle_endlist d) = segments d \<and>
   playlists (handle_endlist d) = playlists d"
  by (simp add: handle_endlist_def)

lemma handle_i_frames_only_frame:
  "keys (handle_i_frames_only d) = keys d \<and>
   segment_map (handle_i_frames_only d) = segment_map d \<and>
   segments (handle_i_frames_only d) = segments d \<and>
   playlists (handle_i_frames_only d) = playlists d"
  by (simp add: handle_i_frames_only_def)

lemma handle_independent_segments_frame:
  "keys (handle_independent_segments d) = keys d \<and>
   segment_map (handle_independent_segments d) = segment_map d \<and>
   segments (handle_independent_segments d) = segments d \<and>
   playlists (handle_independent_segments d) = playlists d"
  by (simp add: handle_independent_segments_def)

lemma handle_images_only_frame:
  "keys (handle_images_only d) = keys d \<and>
   segment_map (handle_images_only d) = segment_map d \<and>
   segments (handle_images_only d) = segments d \<and>
   playlists (handle_images_only d) = playlists d"
  by (simp add: handle_images_only_def)

lemma handle_discontinuity_frame:
  "st_current_segment (handle_discontinuity s) = st_current_segment s \<and>
   st_current_key (handle_discontinuity s) = st_current_key s \<and>
   st_current_map (handle_discontinuity s) = st_current_map s \<and>
   st_dateranges (handle_discontinuity s) = st_dateranges s \<and>
   st_cue_out (handle_discontinuity s) = st_cue_out s \<and>
   st_cue_out_start (handle_discontinuity s) = st_cue_out_start s \<and>
   st_asset_metadata (handle_discontinuity s) = st_asset_metadata s"
  by (simp add: handle_discontinuity_def Let_def split: option.splits)

lemma handle_gap_frame:
  "st_current_segment (handle_gap s) = st_current_segment s \<and>
   st_current_key (handle_gap s) = st_current_key s \<and>
   st_current_map (handle_gap s) = st_current_map s \<and>
   st_dateranges (handle_gap s) = st_dateranges s \<and>
   st_cue_out (handle_gap s) = st_cue_out s \<and>
   st_cue_out_start (handle_gap s) = st_cue_out_start s \<and>
   st_asset_metadata (handle_gap s) = st_asset_metadata s"
  by (simp add: handle_gap_def Let_def split: option.splits)

lemma handle_cue_in_frame:
  "st_current_segment (handle_cue_in s) = st_current_segment s \<and>
   st_current_key (handle_cue_in s) = st_current_key s \<and>
   st_current_map (handle_cue_in s) = st_current_map s \<and>
   st_dateranges (handle_cue_in s) = st_dateranges s \<and>
   st_cue_out (handle_cue_in s) = st_cue_out s \<and>
   st_cue_out_start (handle_cue_in s) = st_cue_out_start s \<and>
   st_asset_metadata (handle_cue_in s) = st_asset_metadata s"
  by (simp add: handle_cue_in_def Let_def split: option.splits)

lemma handle_cue_span_frame:
  "st_current_segment (handle_cue_span s) = st_current_segment s \<and>
   st_current_key (handle_cue_span s) = st_current_key s \<and>
   st_current_map (handle_cue_span s) = st_current_map s \<and>
   st_dateranges (handle_cue_span s) = st_dateranges s \<and>
   st_cue_out_start (handle_cue_span s) = st_cue_out_start s \<and>
   st_asset_metadata (handle_cue_span s) = st_asset_metadata s"
  by (simp add: handle_cue_span_def Let_def split: option.splits)

lemma handle_blackout_frame:
  "st_current_segment (handle_blackout s c n) = st_current_segment s \<and>
   st_current_key (handle_blackout s c n) = st_current_key s \<and>
   st_current_map (handle_blackout s c n) = st_current_map s \<and>
   st_dateranges (handle_blackout s c n) = st_dateranges s \<and>
   st_cue_out (handle_blackout s c n) = st_cue_out s \<and>
   st_cue_out_start (handle_blackout s c n) = st_cue_out_start s \<and>
   st_asset_metadata (handle_blackout s c n) = st_asset_metadata s"
  by (simp add: handle_blackout_def Let_def split: option.splits)

lemma handle_cue_out_cont_frame:
  "st_current_segment (handle_cue_out_cont s c n) = st_current_segment s \<and>
   st_current_key (handle_cue_out_cont s c n) = st_current_key s \<and>
   st_current_map (handle_cue_out_cont s c n) = st_current_map s \<and>
   st_dateranges (handle_cue_out_cont s c n) = st_dateranges s \<and>
   st_cue_out_start (handle_cue_out_cont s c n) = st_cue_out_start s \<and>
   st_asset_metadata (handle_cue_out_cont s c n) = st_asset_metadata s"
  by (simp add: handle_cue_out_cont_def Let_def split: option.splits)

lemma handle_cue_out_frame:
  "st_current_segment (handle_cue_out s c n) = st_current_segment s \<and>
   st_current_key (handle_cue_out s c n) = st_current_key s \<and>
   st_current_map (handle_cue_out s c n) = st_current_map s \<and>
   st_dateranges (handle_cue_out s c n) = st_dateranges s \<and>
   st_asset_metadata (handle_cue_out s c n) = st_asset_metadata s"
  by (simp add: handle_cue_out_def Let_def split: option.splits)

lemma handle_oatcls_scte35_frame:
  "st_current_segment (handle_oatcls_scte35 s c n) = st_current_segment s \<and>
   st_current_key (handle_oatcls_scte35 s c n) = st_current_key s \<and>
   st_current_map (handle_oatcls_scte35 s c n) = st_current_map s \<and>
   st_dateranges (handle_oatcls_scte35 s c n) = st_dateranges s \<and>
   st_cue_out (handle_oatcls_scte35 s c n) = st_cue_out s \<and>
   st_cue_out_start (handle_oatcls_scte35 s c n) = st_cue_out_start s \<and>
   st_asset_metadata (handle_oatcls_scte35 s c n) = st_asset_metadata s"
  by (simp add: handle_oatcls_scte35_def Let_def split: option.splits)

lemma handle_asset_frame:
  "st_current_segment (handle_asset s c n) = st_current_segment s \<and>
   st_current_key (handle_asset s c n) = st_current_key s \<and>
   st_current_map (handle_asset s c n) = st_current_map s \<and>
   st_dateranges (handle_asset s c n) = st_dateranges s \<and>
   st_cue_out (handle_asset s c n) = st_cue_out s \<and>
   st_cue_out_start (handle_asset s c n) = st_cue_out_start s"
  by (simp add: handle_asset_def Let_def split: option.splits)

lemma handle_extinf_frame:
  "st_current_key (handle_extinf s c n) = st_current_key s \<and>
   st_current_map (handle_extinf s c n) = st_current_map s \<and>
   st_dateranges (handle_extinf s c n) = st_dateranges s \<and>
   st_cue_out (handle_extinf s c n) = st_cue_out s \<and>
   st_cue_out_start (handle_extinf s c n) = st_cue_out_start s \<and>
   st_asset_metadata (handle_extinf s c n) = st_asset_metadata s"
  by (simp add: handle_extinf_def Let_def split: option.splits)

lemma handle_byterange_frame:
  "st_current_key (handle_byterange s c n) = st_current_key s \<and>
   st_current_map (handle_byterange s c n) = st_current_map s \<and>
   st_dateranges (handle_byterange s c n) = st_dateranges s \<and>
   st_cue_out (handle_byterange s c n) = st_cue_out s \<and>
   st_cue_out_start (handle_byterange s c n) = st_cue_out_start s \<and>
   st_asset_metadata (handle_byterange s c n) = st_asset_metadata s"
  by (simp add: handle_byterange_def Let_def split: option.splits)

lemma handle_bitrate_frame:
  "st_current_key (handle_bitrate s c n) = st_current_key s \<and>
   st_current_map (handle_bitrate s c n) = st_current_map s \<and>
   st_dateranges (handle_bitrate s c n) = st_dateranges s \<and>
   st_cue_out (handle_bitrate s c n) = st_cue_out s \<and>
   st_cue_out_start (handle_bitrate s c n) = st_cue_out_start s \<and>
   st_asset_metadata (handle_bitrate s c n) = st_asset_metadata s"
  by (simp add: handle_bitrate_def Let_def split: option.splits)

lemma handle_daterange_frame:
  "st_current_segment (handle_daterange s c n) = st_current_segment s \<and>
   st_current_key (handle_daterange s c n) = st_current_key s \<and>
   st_current_map (handle_daterange s c n) = st_current_map s \<and>
   st_cue_out (handle_daterange s c n) = st_cue_out s \<and>
   st_cue_out_start (handle_daterange s c n) = st_cue_out_start s \<and>
   st_asset_metadata (handle_daterange s c n) = st_asset_metadata s"
  by (simp add: handle_daterange_def Let_def split: option.splits)

lemma handle_part_frame:
  "st_current_key (handle_part s c n) = st_current_key s \<and>
   st_current_map (handle_part s c n) = st_current_map s \<and>
   st_cue_out (handle_part s c n) = st_cue_out s \<and>
   st_cue_out_start (handle_part s c n) = st_cue_out_start s \<and>
   st_asset_metadata (handle_part s c n) = st_asset_metadata s"
  by (simp add: handle_part_def Let_def split: option.splits)

lemma handle_program_date_time_frame:
  "keys (fst (handle_program_date_time d s c n)) = keys d \<and>
   segment_map (fst (handle_program_date_time d s c n)) = segment_map d \<and>
   segments (fst (handle_program_date_time d s c n)) = segments d \<and>
   playlists (fst (handle_program_date_time d s c n)) = playlists d \<and>
   st_current_segment (snd (handle_program_date_time d s c n)) = st_current_segment s \<and>
   st_current_key (snd (handle_program_date_time d s c n)) = st_current_key s \<and>
   st_current_map (snd (handle_program_date_time d s c n)) = st_current_map s \<and>
   st_dateranges (snd (handle_program_date_time d s c n)) = st_dateranges s \<and>
   st_cue_out (snd (handle_program_date_time d s c n)) = st_cue_out s \<and>
   st_cue_out_start (snd (handle_program_date_time d s c n)) = st_cue_out_start s \<and>
   st_asset_metadata (snd (handle_program_date_time d s c n)) = st_asset_metadata s"
  by (simp add: handle_program_date_time_def Let_def split: option.splits)

lemma handle_key_frame:
  "segment_map (fst (handle_key d s c n)) = segment_map d \<and>
   segments (fst (handle_key d s c n)) = segments d \<and>
   playlists (fst (handle_key d s c n)) = playlists d \<and>
   st_current_segment (snd (handle_key d s c n)) = st_current_segment s \<and>
   st_current_map (snd (handle_key d s c n)) = st_current_map s \<and>
   st_dateranges (snd (handle_key d s c n)) = st_dateranges s \<and>
   st_cue_out (snd (handle_key d s c n)) = st_cue_out s \<and>
   st_cue_out_start (snd (handle_key d s c n)) = st_cue_out_start s \<and>
   st_asset_metadata (snd (handle_key d s c n)) = st_asset_metadata s"
  by (simp add: handle_key_def Let_def split: option.splits)

lemma handle_map_frame:
  "keys (fst (handle_map d s c n)) = keys d \<and>
   segments (fst (handle_map d s c n)) = segments d \<and>
   playlists (fst (handle_map d s c n)) = playlists d \<and>
   st_current_segment (snd (handle_map d s c n)) = st_current_segment s \<and>
   st_current_key (snd (handle_map d s c n)) = st_current_key s \<and>
   st_dateranges (snd (handle_map d s c n)) = st_dateranges s \<and>
   st_cue_out (snd (handle_map d s c n)) = st_cue_out s \<and>
   st_cue_out_start (snd (handle_map d s c n)) = st_cue_out_start s \<and>
   st_asset_metadata (snd (handle_map d s c n)) = st_asset_metadata s"
  by (simp add: handle_map_def Let_def split: option.splits)

lemma handle_stream_inf_frame:
  "keys (fst (handle_stream_inf d s c n)) = keys d \<and>
   segment_map (fst (handle_stream_inf d s c n)) = segment_map d \<and>
   segments (fst (handle_stream_inf d s c n)) = segments d \<and>
   playlists (fst (handle_stream_inf d s c n)) = playlists d \<and>
   st_current_segment (snd (handle_stream_inf d s c n)) = st_current_segment s \<and>
   st_current_key (snd (handle_stream_inf d s c n)) = st_current_key s \<and>
   st_current_map (snd (handle_stream_inf d s c n)) = st_current_map s \<and>
   st_dateranges (snd (handle_stream_inf d s c n)) = st_dateranges s \<and>
   st_cue_out (snd (handle_stream_inf d s c n)) = st_cue_out s \<and>
   st_cue_out_start (snd (handle_stream_inf d s c n)) = st_cue_out_start s \<and>
   st_asset_metadata (snd (handle_stream_inf d s c n)) = st_asset_metadata s"
  by (simp add: handle_stream_inf_def Let_def split: option.splits)

lemmas handler_frames =
  handle_targetduration_frame handle_media_sequence_frame handle_discontinuity_sequence_frame
  handle_version_frame handle_allow_cache_frame handle_playlist_type_frame
  handle_session_key_frame handle_i_frame_stream_inf_frame handle_image_stream_inf_frame
  handle_media_frame handle_start_frame handle_server_control_frame
  handle_part_inf_frame handle_skip_frame handle_rendition_report_frame
  handle_session_data_frame handle_preload_hint_frame handle_content_steering_frame
  handle_tiles_frame handle_endlist_frame handle_i_frames_only_frame
  handle_independent_segments_frame handle_images_only_frame handle_discontinuity_frame
  handle_gap_frame handle_cue_in_frame handle_cue_span_frame
  handle_blackout_frame handle_cue_out_cont_frame handle_cue_out_frame
  handle_oatcls_scte35_frame handle_asset_frame handle_extinf_frame
  handle_byterange_frame handle_bitrate_frame handle_daterange_frame
  handle_part_frame handle_program_date_time_frame handle_key_frame
  handle_map_frame handle_stream_inf_frame

section \<open>The segment in progress\<close>

lemma unfinalized_new: "unfinalized new_segment"
  by (simp add: unfinalized_def new_segment_def)

lemma unfinalized_ensure: "pending_ok s \<Longrightarrow> unfinalized (ensure_segment s)"
  by (auto simp: pending_ok_def ensure_segment_def unfinalized_new split: option.splits)

lemma unfinalized_fields:
  assumes "unfinalized seg"
  shows "seg_key seg = None" "seg_init_section seg = None" "seg_asset_metadata seg = []"
    "seg_dateranges seg = []" "seg_uri seg = None" "\<not> seg_cue_out seg" "\<not> seg_cue_out_start seg"
proof -
  let ?t = "seg\<lparr>seg_duration := zero_double, seg_title := None, seg_byterange := None,
          seg_bitrate := 0, seg_parts := []\<rparr>"
  have e: "?t = new_segment" using assms by (simp add: unfinalized_def)
  have "seg_key ?t = None" "seg_init_section ?t = None" "seg_asset_metadata ?t = []"
    "seg_dateranges ?t = []" "seg_uri ?t = None" "\<not> seg_cue_out ?t" "\<not> seg_cue_out_start ?t"
    unfolding e by (simp_all add: new_segment_def)
  then show "seg_key seg = None" "seg_init_section seg = None" "seg_asset_metadata seg = []"
    "seg_dateranges seg = []" "seg_uri seg = None" "\<not> seg_cue_out seg" "\<not> seg_cue_out_start seg"
    by simp_all
qed

lemma unfinalized_update:
  assumes "unfinalized seg"
  shows "unfinalized (seg\<lparr>seg_duration := a\<rparr>)" "unfinalized (seg\<lparr>seg_title := b\<rparr>)"
    "unfinalized (seg\<lparr>seg_byterange := c\<rparr>)" "unfinalized (seg\<lparr>seg_bitrate := e\<rparr>)"
    "unfinalized (seg\<lparr>seg_parts := f\<rparr>)"
  using assms by (simp_all add: unfinalized_def)

lemma pending_ok_handle_extinf: "pending_ok s \<Longrightarrow> pending_ok (handle_extinf s c n)"
  using unfinalized_ensure[of s]
  by (auto simp: handle_extinf_def Let_def pending_ok_def unfinalized_update split: option.splits)

lemma pending_ok_handle_byterange: "pending_ok s \<Longrightarrow> pending_ok (handle_byterange s c n)"
  using unfinalized_ensure[of s]
  by (auto simp: handle_byterange_def Let_def pending_ok_def unfinalized_update)

lemma pending_ok_handle_bitrate: "pending_ok s \<Longrightarrow> pending_ok (handle_bitrate s c n)"
  using unfinalized_ensure[of s]
  by (auto simp: handle_bitrate_def Let_def pending_ok_def unfinalized_update)

lemma pending_ok_handle_part: "pending_ok s \<Longrightarrow> pending_ok (handle_part s c n)"
proof -
  assume a: "pending_ok s"
  then have "pending_ok (s\<lparr>st_dateranges := [], st_gap := False\<rparr>)" by (simp add: pending_ok_def)
  then have "unfinalized (ensure_segment (s\<lparr>st_dateranges := [], st_gap := False\<rparr>))"
    by (rule unfinalized_ensure)
  then show ?thesis
    by (simp add: handle_part_def Let_def pending_ok_def unfinalized_update)
qed

lemma pending_ok_handle_discontinuity: "pending_ok (handle_discontinuity s) = pending_ok s"
  by (simp add: pending_ok_def handle_discontinuity_frame)

lemma pending_ok_handle_gap: "pending_ok (handle_gap s) = pending_ok s"
  by (simp add: pending_ok_def handle_gap_frame)

lemma pending_ok_handle_cue_in: "pending_ok (handle_cue_in s) = pending_ok s"
  by (simp add: pending_ok_def handle_cue_in_frame)

lemma pending_ok_handle_cue_span: "pending_ok (handle_cue_span s) = pending_ok s"
  by (simp add: pending_ok_def handle_cue_span_frame)

lemma pending_ok_handle_blackout: "pending_ok (handle_blackout s c n) = pending_ok s"
  by (simp add: pending_ok_def handle_blackout_frame)

lemma pending_ok_handle_cue_out_cont: "pending_ok (handle_cue_out_cont s c n) = pending_ok s"
  by (simp add: pending_ok_def handle_cue_out_cont_frame)

lemma pending_ok_handle_cue_out: "pending_ok (handle_cue_out s c n) = pending_ok s"
  by (simp add: pending_ok_def handle_cue_out_frame)

lemma pending_ok_handle_oatcls_scte35: "pending_ok (handle_oatcls_scte35 s c n) = pending_ok s"
  by (simp add: pending_ok_def handle_oatcls_scte35_frame)

lemma pending_ok_handle_asset: "pending_ok (handle_asset s c n) = pending_ok s"
  by (simp add: pending_ok_def handle_asset_frame)

lemma pending_ok_handle_daterange: "pending_ok (handle_daterange s c n) = pending_ok s"
  by (simp add: pending_ok_def handle_daterange_frame)

lemma pending_ok_handle_program_date_time: "pending_ok (snd (handle_program_date_time d s c n)) = pending_ok s"
  by (simp add: pending_ok_def handle_program_date_time_frame)

lemma pending_ok_handle_key: "pending_ok (snd (handle_key d s c n)) = pending_ok s"
  by (simp add: pending_ok_def handle_key_frame)

lemma pending_ok_handle_map: "pending_ok (snd (handle_map d s c n)) = pending_ok s"
  by (simp add: pending_ok_def handle_map_frame)

lemma pending_ok_handle_stream_inf: "pending_ok (snd (handle_stream_inf d s c n)) = pending_ok s"
  by (simp add: pending_ok_def handle_stream_inf_frame)

lemmas pending_ok_frames =
  pending_ok_handle_discontinuity pending_ok_handle_gap pending_ok_handle_cue_in
  pending_ok_handle_cue_span pending_ok_handle_blackout pending_ok_handle_cue_out_cont
  pending_ok_handle_cue_out pending_ok_handle_oatcls_scte35 pending_ok_handle_asset
  pending_ok_handle_daterange pending_ok_handle_program_date_time pending_ok_handle_key
  pending_ok_handle_map pending_ok_handle_stream_inf

lemma pending_ok_dispatch:
  assumes "pending_ok s"
  shows "pending_ok (snd (dispatch_tag (d, s) c n))"
  unfolding dispatch_tag_def Let_def
  by (simp add: pending_ok_handle_extinf[OF assms] pending_ok_handle_byterange[OF assms]
      pending_ok_handle_bitrate[OF assms] pending_ok_handle_part[OF assms] pending_ok_frames assms)

section \<open>Which handler a tag line reaches\<close>

lemma starts_with_Nil: "starts_with c n [] = True"
  by (simp add: starts_with_def)

lemma starts_with_Cons:
  "starts_with (x # xs) (Suc n) (y # ys) = (x = y \<and> starts_with xs n ys)"
  by (auto simp: starts_with_def)

lemma starts_withD:
  assumes "starts_with c n p"
  shows "\<exists>r m. c = p @ r \<and> n = length p + m"
proof -
  from assms have a: "length p \<le> n" and b: "take (length p) c = p"
    by (auto simp: starts_with_def split: if_splits)
  have "c = take (length p) c @ drop (length p) c" by simp
  with b have "c = p @ drop (length p) c" by simp
  moreover from a have "n = length p + (n - length p)" by simp
  ultimately show ?thesis by blast
qed

lemma starts_with_hash_tag_line:
  assumes "starts_with (fst l) (snd l) (CHR ''#'' # p)"
  shows "is_tag_line l"
  using starts_withD[OF assms] by (auto simp: is_tag_line_def)

lemma dispatch_key:
  assumes "is_key_tag l"
  shows "process_line (d, s) l = handle_key d s (fst l) (snd l)"
proof -
  obtain r m where r: "fst l = ''#EXT-X-KEY:'' @ r" and n: "snd l = length ''#EXT-X-KEY:'' + m"
    using starts_withD[of "fst l" "snd l" "''#EXT-X-KEY:''"] assms unfolding is_key_tag_def by auto
  have "is_tag_line l" using assms unfolding is_key_tag_def by (rule starts_with_hash_tag_line)
  then show ?thesis
    unfolding process_line_def dispatch_tag_def Let_def r n
    by (simp add: starts_with_Cons starts_with_Nil)
qed

lemma dispatch_map:
  assumes "is_map_tag l"
  shows "process_line (d, s) l = handle_map d s (fst l) (snd l)"
proof -
  obtain r m where r: "fst l = ''#EXT-X-MAP:'' @ r" and n: "snd l = length ''#EXT-X-MAP:'' + m"
    using starts_withD[of "fst l" "snd l" "''#EXT-X-MAP:''"] assms unfolding is_map_tag_def by auto
  have "is_tag_line l" using assms unfolding is_map_tag_def by (rule starts_with_hash_tag_line)
  then show ?thesis
    unfolding process_line_def dispatch_tag_def Let_def r n
    by (simp add: starts_with_Cons starts_with_Nil)
qed

lemma dispatch_daterange:
  assumes "is_daterange_tag l"
  shows "process_line (d, s) l = (d, handle_daterange s (fst l) (snd l))"
proof -
  obtain r m where r: "fst l = ''#EXT-X-DATERANGE:'' @ r"
    and n: "snd l = length ''#EXT-X-DATERANGE:'' + m"
    using starts_withD[of "fst l" "snd l" "''#EXT-X-DATERANGE:''"] assms
    unfolding is_daterange_tag_def by auto
  have "is_tag_line l"
    using assms unfolding is_daterange_tag_def by (rule starts_with_hash_tag_line)
  then show ?thesis
    unfolding process_line_def dispatch_tag_def Let_def r n
    by (simp add: starts_with_Cons starts_with_Nil)
qed

lemma dispatch_part:
  assumes "is_part_tag l"
  shows "process_line (d, s) l = (d, handle_part s (fst l) (snd l))"
proof -
  obtain r m where r: "fst l = ''#EXT-X-PART:'' @ r"
    and n: "snd l = length ''#EXT-X-PART:'' + m"
    using starts_withD[of "fst l" "snd l" "''#EXT-X-PART:''"] assms
    unfolding is_part_tag_def by auto
  have "is_tag_line l"
    using assms unfolding is_part_tag_def by (rule starts_with_hash_tag_line)
  then show ?thesis
    unfolding process_line_def dispatch_tag_def Let_def r n
    by (simp add: starts_with_Cons starts_with_Nil)
qed

lemma dispatch_stream_inf:
  assumes "is_stream_inf_tag l"
  shows "process_line (d, s) l = handle_stream_inf d s (fst l) (snd l)"
proof -
  obtain r m where r: "fst l = ''#EXT-X-STREAM-INF:'' @ r"
    and n: "snd l = length ''#EXT-X-STREAM-INF:'' + m"
    using starts_withD[of "fst l" "snd l" "''#EXT-X-STREAM-INF:''"] assms
    unfolding is_stream_inf_tag_def by auto
  have "is_tag_line l"
    using assms unfolding is_stream_inf_tag_def by (rule starts_with_hash_tag_line)
  then show ?thesis
    unfolding process_line_def dispatch_tag_def Let_def r n
    by (simp add: starts_with_Cons starts_with_Nil)
qed


lemma dispatch_cue_span:
  assumes "is_cue_span_tag l"
  shows "process_line (d, s) l = (d, handle_cue_span s)"
proof -
  obtain r m where r: "fst l = ''#EXT-X-CUE-SPAN'' @ r"
    and n: "snd l = length ''#EXT-X-CUE-SPAN'' + m"
    using starts_withD[of "fst l" "snd l" "''#EXT-X-CUE-SPAN''"] assms
    unfolding is_cue_span_tag_def by auto
  have "is_tag_line l"
    using assms unfolding is_cue_span_tag_def by (rule starts_with_hash_tag_line)
  then show ?thesis
    unfolding process_line_def dispatch_tag_def Let_def r n
    by (simp add: starts_with_Cons starts_with_Nil)
qed

lemma dispatch_cue_out:
  assumes "is_cue_out_tag l"
  shows "process_line (d, s) l = (d, handle_cue_out s (fst l) (snd l))"
proof -
  have a: "starts_with (fst l) (snd l) ''#EXT-X-CUE-OUT''"
    and b: "\<not> starts_with (fst l) (snd l) ''#EXT-X-CUE-OUT-CONT''"
    using assms by (auto simp: is_cue_out_tag_def)
  obtain r m where r: "fst l = ''#EXT-X-CUE-OUT'' @ r"
    and n: "snd l = length ''#EXT-X-CUE-OUT'' + m"
    using starts_withD[OF a] by auto
  have "is_tag_line l" using a by (rule starts_with_hash_tag_line)
  then show ?thesis
    using b unfolding process_line_def dispatch_tag_def Let_def r n
    by (simp add: starts_with_Cons starts_with_Nil)
qed

text \<open>The other direction: a tag line that is not of a given kind leaves that kind's
  fields alone.\<close>

lemma dispatch_frame:
  "segments (fst (dispatch_tag (d, s) c n)) = segments d"
  "playlists (fst (dispatch_tag (d, s) c n)) = playlists d"
  unfolding dispatch_tag_def Let_def by (simp_all add: handler_frames)

lemma dispatch_not_key:
  assumes "\<not> is_key_tag (c, n)"
  shows "keys (fst (dispatch_tag (d, s) c n)) = keys d"
    and "st_current_key (snd (dispatch_tag (d, s) c n)) = st_current_key s"
  using assms unfolding dispatch_tag_def Let_def is_key_tag_def
  by (simp_all add: handler_frames)

lemma dispatch_not_map:
  assumes "\<not> is_map_tag (c, n)"
  shows "segment_map (fst (dispatch_tag (d, s) c n)) = segment_map d"
    and "st_current_map (snd (dispatch_tag (d, s) c n)) = st_current_map s"
  using assms unfolding dispatch_tag_def Let_def is_map_tag_def
  by (simp_all add: handler_frames)

lemma dispatch_not_daterange:
  assumes "\<not> is_daterange_tag (c, n)" and "\<not> is_part_tag (c, n)"
  shows "st_dateranges (snd (dispatch_tag (d, s) c n)) = st_dateranges s"
  using assms unfolding dispatch_tag_def Let_def is_daterange_tag_def is_part_tag_def
  by (simp add: handler_frames)






section \<open>The effect of the finalizers\<close>

lemma copy_attributes_id: "copy_attributes attrs = attrs"
  by (simp add: copy_attributes_def str_dup_def)

lemma map_option_str_dup: "map_option str_dup x = x"
  by (cases x) (simp_all add: str_dup_def)

lemma finalize_segment_appends:
  "fst (finalize_segment d s u n) = d\<lparr>segments := segments d @ [finalized d s u n]\<rparr>"
  by (simp add: finalized_def finalize_segment_def Let_def)

lemma finalized_fields:
  "seg_uri (finalized d s u n) = Some (str_ndup u n)"
  "seg_cue_out (finalized d s u n) = st_cue_out s"
  "seg_cue_out_start (finalized d s u n) = st_cue_out_start s"
  "seg_cue_out_explicitly_duration (finalized d s u n) = st_cue_out_explicitly_duration s"
  "seg_scte35 (finalized d s u n) = st_current_cue_out_scte35 s"
  "seg_oatcls_scte35 (finalized d s u n) = st_current_cue_out_oatcls_scte35 s"
  "seg_scte35_duration (finalized d s u n) = st_current_cue_out_duration s"
  "seg_scte35_elapsedtime (finalized d s u n) = st_current_cue_out_elapsedtime s"
  "seg_asset_metadata (finalized d s u n) =
     (if st_asset_metadata s \<noteq> [] then st_asset_metadata s
      else seg_asset_metadata (ensure_segment s))"
  "seg_key (finalized d s u n) = st_current_key s"
  "seg_init_section (finalized d s u n) = st_current_map s"
  "seg_dateranges (finalized d s u n) = st_dateranges s"
  by (simp_all add: finalized_def finalize_segment_def Let_def copy_attributes_id
      map_option_str_dup split: option.splits)

lemma finalize_segment_state:
  "st_current_segment (snd (finalize_segment d s u n)) = None"
  "st_expect_segment (snd (finalize_segment d s u n)) = False"
  "st_cue_out (snd (finalize_segment d s u n)) = False"
  "st_cue_out_start (snd (finalize_segment d s u n)) = False"
  "st_cue_out_explicitly_duration (snd (finalize_segment d s u n)) = False"
  "st_dateranges (snd (finalize_segment d s u n)) = []"
  "st_current_key (snd (finalize_segment d s u n)) = st_current_key s"
  "st_current_map (snd (finalize_segment d s u n)) = st_current_map s"
  "st_expect_playlist (snd (finalize_segment d s u n)) = st_expect_playlist s"
  "st_stream_info (snd (finalize_segment d s u n)) = st_stream_info s"
  by (simp_all add: finalize_segment_def Let_def)

lemma finalize_segment_pending:
  "st_current_cue_out_scte35 (snd (finalize_segment d s u n)) =
     (if st_cue_out s then st_current_cue_out_scte35 s else None)"
  "st_current_cue_out_oatcls_scte35 (snd (finalize_segment d s u n)) =
     (if st_cue_out s then st_current_cue_out_oatcls_scte35 s else None)"
  "st_current_cue_out_duration (snd (finalize_segment d s u n)) =
     (if st_cue_out s then st_current_cue_out_duration s else None)"
  "st_current_cue_out_elapsedtime (snd (finalize_segment d s u n)) =
     (if st_cue_out s then st_current_cue_out_elapsedtime s else None)"
  "st_asset_metadata (snd (finalize_segment d s u n)) =
     (if st_cue_out s then st_asset_metadata s else [])"
  by (simp_all add: finalize_segment_def Let_def)

lemma finalize_segment_data:
  "keys (fst (finalize_segment d s u n)) = keys d"
  "segment_map (fst (finalize_segment d s u n)) = segment_map d"
  "playlists (fst (finalize_segment d s u n)) = playlists d"
  by (simp_all add: finalize_segment_def Let_def)

lemma finalize_playlist_frame:
  "keys (fst (finalize_playlist d s u n)) = keys d"
  "segment_map (fst (finalize_playlist d s u n)) = segment_map d"
  "segments (fst (finalize_playlist d s u n)) = segments d"
  "st_current_segment (snd (finalize_playlist d s u n)) = st_current_segment s"
  "st_current_key (snd (finalize_playlist d s u n)) = st_current_key s"
  "st_current_map (snd (finalize_playlist d s u n)) = st_current_map s"
  "st_dateranges (snd (finalize_playlist d s u n)) = st_dateranges s"
  "st_cue_out (snd (finalize_playlist d s u n)) = st_cue_out s"
  "st_cue_out_start (snd (finalize_playlist d s u n)) = st_cue_out_start s"
  "st_asset_metadata (snd (finalize_playlist d s u n)) = st_asset_metadata s"
  by (simp_all add: finalize_playlist_def)

lemma process_line_finalize:
  assumes "\<not> is_tag_line l" and "st_expect_segment s"
  shows "process_line (d, s) l = finalize_segment d s (fst l) (snd l)"
  using assms by (simp add: process_line_def process_uri_def)

lemma pending_ok_process_line:
  assumes "pending_ok (snd ds)"
  shows "pending_ok (snd (process_line ds l))"
proof (cases "is_tag_line l")
  case True
  then show ?thesis
    using pending_ok_dispatch[OF assms, of "fst ds" "fst l" "snd l"]
    by (simp add: process_line_def)
next
  case False
  then show ?thesis using assms
    by (simp add: process_line_def process_uri_def Let_def pending_ok_def
        finalize_segment_state finalize_playlist_frame)
qed

lemma pending_ok_run_lines:
  assumes "pending_ok (snd ds)"
  shows "pending_ok (snd (run_lines ds ls))"
proof (induction ls rule: rev_induct)
  case Nil
  then show ?case using assms by (simp add: run_lines_def)
next
  case (snoc l ls)
  then show ?case by (simp add: run_lines_snoc pending_ok_process_line)
qed

lemma pending_ok_after_lines: "pending_ok (snd (after_lines ls))"
  unfolding after_lines_def
  by (rule pending_ok_run_lines) (simp add: pending_ok_def new_state_def)

section \<open>The effect of one line, and of many\<close>

lemma keys_step:
  "keys (fst (process_line (d, s) l)) = keys d @ (if is_key_tag l then [key_of_line l] else [])"
proof (cases "is_key_tag l")
  case True
  then show ?thesis
    by (simp add: dispatch_key handle_key_def Let_def key_of_line_def)
next
  case False
  then show ?thesis
    using dispatch_not_key(1)[of "fst l" "snd l" d s]
    by (simp add: process_line_def process_uri_def finalize_segment_data finalize_playlist_frame)
qed

lemma current_key_step:
  "st_current_key (snd (process_line (d, s) l)) =
     (if is_key_tag l then Some (length (keys d)) else st_current_key s)"
proof (cases "is_key_tag l")
  case True
  then show ?thesis by (simp add: dispatch_key handle_key_def Let_def)
next
  case False
  then show ?thesis
    using dispatch_not_key(2)[of "fst l" "snd l" d s]
    by (simp add: process_line_def process_uri_def finalize_segment_state finalize_playlist_frame)
qed

lemma segment_map_step:
  "segment_map (fst (process_line (d, s) l)) =
     segment_map d @ (if is_map_tag l then [map_of_line l] else [])"
proof (cases "is_map_tag l")
  case True
  then show ?thesis
    by (simp add: dispatch_map handle_map_def Let_def map_of_line_def)
next
  case False
  then show ?thesis
    using dispatch_not_map(1)[of "fst l" "snd l" d s]
    by (simp add: process_line_def process_uri_def finalize_segment_data finalize_playlist_frame)
qed

lemma current_map_step:
  "st_current_map (snd (process_line (d, s) l)) =
     (if is_map_tag l then Some (length (segment_map d)) else st_current_map s)"
proof (cases "is_map_tag l")
  case True
  then show ?thesis by (simp add: dispatch_map handle_map_def Let_def)
next
  case False
  then show ?thesis
    using dispatch_not_map(2)[of "fst l" "snd l" d s]
    by (simp add: process_line_def process_uri_def finalize_segment_state finalize_playlist_frame)
qed

lemma segments_step:
  "segments (fst (process_line (d, s) l)) =
     segments d @ (if \<not> is_tag_line l \<and> st_expect_segment s
                   then [finalized d s (fst l) (snd l)] else [])"
  by (simp add: process_line_def process_uri_def dispatch_frame finalize_segment_appends
      finalize_playlist_frame)

lemma segments_tag_line:
  "is_tag_line l \<Longrightarrow> segments (fst (process_line ds l)) = segments (fst ds)"
  using segments_step[of "fst ds" "snd ds" l] by simp

lemma keys_run_lines:
  "keys (fst (run_lines ds ls)) = keys (fst ds) @ map key_of_line (filter is_key_tag ls)"
proof (induction ls rule: rev_induct)
  case Nil
  show ?case by (simp add: run_lines_Nil)
next
  case (snoc l ls)
  show ?case
    using keys_step[of "fst (run_lines ds ls)" "snd (run_lines ds ls)" l] snoc
    by (simp add: run_lines_snoc)
qed

lemma segment_map_run_lines:
  "segment_map (fst (run_lines ds ls)) =
     segment_map (fst ds) @ map map_of_line (filter is_map_tag ls)"
proof (induction ls rule: rev_induct)
  case Nil
  show ?case by (simp add: run_lines_Nil)
next
  case (snoc l ls)
  show ?case
    using segment_map_step[of "fst (run_lines ds ls)" "snd (run_lines ds ls)" l] snoc
    by (simp add: run_lines_snoc)
qed

lemma segments_run_lines: "\<exists>more. segments (fst (run_lines ds ls)) = segments (fst ds) @ more"
proof (induction ls rule: rev_induct)
  case Nil
  show ?case by (simp add: run_lines_Nil)
next
  case (snoc l ls)
  then obtain more where "segments (fst (run_lines ds ls)) = segments (fst ds) @ more" by blast
  then show ?case
    using segments_step[of "fst (run_lines ds ls)" "snd (run_lines ds ls)" l]
    by (simp add: run_lines_snoc)
qed

lemma keys_after_lines:
  "keys (fst (after_lines ls)) = map key_of_line (filter is_key_tag ls)"
  using keys_run_lines[of "(new_data, new_state)" ls] by (simp add: after_lines_def new_data_def)

lemma segment_map_after_lines:
  "segment_map (fst (after_lines ls)) = map map_of_line (filter is_map_tag ls)"
  using segment_map_run_lines[of "(new_data, new_state)" ls]
  by (simp add: after_lines_def new_data_def)

lemma current_key_after_lines:
  "st_current_key (snd (after_lines ls)) = last_ref (length (filter is_key_tag ls))"
proof (induction ls rule: rev_induct)
  case Nil
  show ?case by (simp add: after_lines_def run_lines_Nil new_state_def last_ref_def)
next
  case (snoc l ls)
  have "after_lines (ls @ [l]) = process_line (fst (after_lines ls), snd (after_lines ls)) l"
    by (simp add: after_lines_def run_lines_snoc)
  then show ?case
    using snoc current_key_step[of "fst (after_lines ls)" "snd (after_lines ls)" l]
    by (simp add: keys_after_lines last_ref_def)
qed

lemma current_map_after_lines:
  "st_current_map (snd (after_lines ls)) = last_ref (length (filter is_map_tag ls))"
proof (induction ls rule: rev_induct)
  case Nil
  show ?case by (simp add: after_lines_def run_lines_Nil new_state_def last_ref_def)
next
  case (snoc l ls)
  have "after_lines (ls @ [l]) = process_line (fst (after_lines ls), snd (after_lines ls)) l"
    by (simp add: after_lines_def run_lines_snoc)
  then show ?case
    using snoc current_map_step[of "fst (after_lines ls)" "snd (after_lines ls)" l]
    by (simp add: segment_map_after_lines last_ref_def)
qed

lemma parse_buffer_segments:
  "segments (fst (parse_buffer buf)) =
     segments (fst (after_lines (scan_lines buf))) @
       (case st_current_segment (snd (after_lines (scan_lines buf))) of
          Some seg \<Rightarrow> [seg] | None \<Rightarrow> [])"
  by (simp add: parse_buffer_def Let_def parse_loop_scan after_lines_def split: option.splits)

lemma parse_buffer_chains:
  "keys (fst (parse_buffer buf)) = keys (fst (after_lines (scan_lines buf)))"
  "segment_map (fst (parse_buffer buf)) = segment_map (fst (after_lines (scan_lines buf)))"
  by (simp_all add: parse_buffer_def Let_def parse_loop_scan after_lines_def split: option.splits)

text \<open>Every reference of every segment of the returned document points into the
  document's chains.\<close>

lemma last_ref_less: "last_ref n = Some k \<Longrightarrow> k < n"
  by (auto simp: last_ref_def split: if_splits)

lemma segment_refs_after_lines:
  "\<forall>seg \<in> set (segments (fst (after_lines ls))).
     (\<forall>k. seg_key seg = Some k \<longrightarrow> k < length (filter is_key_tag ls)) \<and>
     (\<forall>m. seg_init_section seg = Some m \<longrightarrow> m < length (filter is_map_tag ls))"
proof (induction ls rule: rev_induct)
  case Nil
  show ?case by (simp add: after_lines_def run_lines_Nil new_data_def)
next
  case (snoc l ls)
  let ?d = "fst (after_lines ls)" and ?s = "snd (after_lines ls)"
  let ?new = "finalized ?d ?s (fst l) (snd l)"
  have step: "segments (fst (after_lines (ls @ [l]))) =
      segments ?d @ (if \<not> is_tag_line l \<and> st_expect_segment ?s then [?new] else [])"
    using segments_step[of ?d ?s l] by (simp add: after_lines_def run_lines_snoc)
  have new: "(\<forall>k. seg_key ?new = Some k \<longrightarrow> k < length (filter is_key_tag ls)) \<and>
      (\<forall>m. seg_init_section ?new = Some m \<longrightarrow> m < length (filter is_map_tag ls))"
    using last_ref_less
    by (simp add: finalized_fields current_key_after_lines current_map_after_lines)
  have mono: "length (filter is_key_tag ls) \<le> length (filter is_key_tag (ls @ [l]))"
    "length (filter is_map_tag ls) \<le> length (filter is_map_tag (ls @ [l]))"
    by simp_all
  show ?case
  proof
    fix seg
    assume "seg \<in> set (segments (fst (after_lines (ls @ [l]))))"
    then have "seg \<in> set (segments ?d) \<or> seg = ?new"
      unfolding step by (auto split: if_splits)
    then have "(\<forall>k. seg_key seg = Some k \<longrightarrow> k < length (filter is_key_tag ls)) \<and>
      (\<forall>m. seg_init_section seg = Some m \<longrightarrow> m < length (filter is_map_tag ls))"
      using snoc new by blast
    then show "(\<forall>k. seg_key seg = Some k \<longrightarrow> k < length (filter is_key_tag (ls @ [l]))) \<and>
      (\<forall>m. seg_init_section seg = Some m \<longrightarrow> m < length (filter is_map_tag (ls @ [l])))"
      using mono by (meson less_le_trans)
  qed
qed

lemma segment_refs_valid:
  "\<forall>seg \<in> set (segments (fst (parse_buffer buf))).
     (\<forall>k. seg_key seg = Some k \<longrightarrow> k < length (keys (fst (parse_buffer buf)))) \<and>
     (\<forall>m. seg_init_section seg = Some m \<longrightarrow> m < length (segment_map (fst (parse_buffer buf))))"
proof
  fix seg
  let ?ls = "scan_lines buf"
  assume "seg \<in> set (segments (fst (parse_buffer buf)))"
  then have "seg \<in> set (segments (fst (after_lines ?ls))) \<or>
      st_current_segment (snd (after_lines ?ls)) = Some seg"
    by (auto simp: parse_buffer_segments split: option.splits)
  moreover have "st_current_segment (snd (after_lines ?ls)) = Some seg \<Longrightarrow>
      seg_key seg = None \<and> seg_init_section seg = None"
    using pending_ok_after_lines[of ?ls] by (simp add: pending_ok_def unfinalized_fields)
  ultimately show "(\<forall>k. seg_key seg = Some k \<longrightarrow> k < length (keys (fst (parse_buffer buf)))) \<and>
     (\<forall>m. seg_init_section seg = Some m \<longrightarrow> m < length (segment_map (fst (parse_buffer buf))))"
    using segment_refs_after_lines[of ?ls]
    by (auto simp: parse_buffer_chains keys_after_lines segment_map_after_lines)
qed

lemma free_pending_dateranges_empty: "free_pending_dateranges drs = []"
  by (induction drs) simp_all

lemma dateranges_step:
  assumes "is_tag_line l" and "\<not> is_part_tag l"
  shows "st_dateranges (snd (process_line ds l)) =
           (if is_daterange_tag l then [daterange_of_line l] else []) @ st_dateranges (snd ds)"
proof (cases "is_daterange_tag l")
  case True
  then show ?thesis
    using dispatch_daterange[of l "fst ds" "snd ds"]
    by (simp add: handle_daterange_def Let_def daterange_of_line_def)
next
  case False
  then show ?thesis
    using assms dispatch_not_daterange[of "fst l" "snd l" "fst ds" "snd ds"]
    by (simp add: process_line_def)
qed

lemma dateranges_run:
  assumes "\<forall>l \<in> set ls. is_tag_line l \<and> \<not> is_part_tag l"
  shows "st_dateranges (snd (run_lines ds ls)) =
           rev (map daterange_of_line (filter is_daterange_tag ls)) @ st_dateranges (snd ds) \<and>
         segments (fst (run_lines ds ls)) = segments (fst ds)"
  using assms
proof (induction ls rule: rev_induct)
  case Nil
  show ?case by (simp add: run_lines_Nil)
next
  case (snoc l ls)
  then show ?case
    using dateranges_step[of l "run_lines ds ls"] segments_tag_line[of l "run_lines ds ls"]
    by (simp add: run_lines_snoc)
qed

lemma part_takes_dateranges:
  assumes "is_part_tag l"
  shows "st_dateranges (snd (process_line (d, s) l)) = [] \<and>
         (\<exists>seg. st_current_segment (snd (process_line (d, s) l)) = Some seg \<and> seg_parts seg \<noteq> [] \<and>
            part_dateranges (last (seg_parts seg)) = st_dateranges s)"
  using dispatch_part[OF assms, of d s] by (simp add: handle_part_def Let_def)






section \<open>The characters of a normalized key\<close>

lemma normalize_char_not_hyphen: "normalize_char r \<noteq> CHR ''-''"
proof (cases "c_isupper r")
  case True
  then have "(of_char (normalize_char r) :: nat) = of_char r + 32"
    by (auto simp: normalize_char_def c_tolower_def c_isupper_def)
  moreover have "65 \<le> (of_char r :: nat)" using True by (simp add: c_isupper_def)
  ultimately have "(of_char (normalize_char r) :: nat) \<noteq> 45" by linarith
  then show ?thesis by auto
next
  case False
  then show ?thesis by (auto simp: normalize_char_def c_tolower_def)
qed

lemma normalize_char_not_upper: "\<not> c_isupper (normalize_char r)"
proof (cases "c_isupper r")
  case True
  then have "(of_char (normalize_char r) :: nat) = of_char r + 32"
    by (auto simp: normalize_char_def c_tolower_def c_isupper_def)
  moreover have "65 \<le> (of_char r :: nat)" using True by (simp add: c_isupper_def)
  ultimately show ?thesis by (simp add: c_isupper_def)
next
  case False
  then show ?thesis by (auto simp: normalize_char_def c_tolower_def c_isupper_def)
qed

lemma normalize_char_key: "key_char (normalize_char r) = raw_key_char r"
proof (cases "c_isupper r")
  case True
  then have "(of_char (normalize_char r) :: nat) = of_char r + 32"
    by (auto simp: normalize_char_def c_tolower_def c_isupper_def)
  moreover have "65 \<le> (of_char r :: nat)" "(of_char r :: nat) \<le> 90"
    using True by (simp_all add: c_isupper_def)
  ultimately have "key_char (normalize_char r)" by (simp add: key_char_def)
  then show ?thesis using True by (simp add: raw_key_char_def)
next
  case False
  show ?thesis
  proof (cases "r = CHR ''-''")
    case True
    then show ?thesis by (simp add: normalize_char_def raw_key_char_def key_char_def)
  next
    case nh: False
    then show ?thesis using False by (simp add: normalize_char_def c_tolower_def raw_key_char_def)
  qed
qed

lemma set_trim_right: "set (trim_right s) \<subseteq> set s"
  using set_dropWhileD[of _ is_blank "rev s"] by (auto simp: trim_right_def)

lemma set_str_ndup: "set (str_ndup s n) \<subseteq> set s - {NUL}"
proof -
  have "set (takeWhile (\<lambda>c. c \<noteq> NUL) (take n s)) \<subseteq> set (take n s) - {NUL}"
    using set_takeWhileD[of _ "\<lambda>c. c \<noteq> NUL" "take n s"] by auto
  then show ?thesis using set_take_subset[of n s] by (auto simp: str_ndup_def c_str_def)
qed

lemma set_normalize_attr_name: "set (normalize_attr_name s) \<subseteq> normalize_char ` set s"
  using set_trim_right[of "map normalize_char s"] by (simp add: normalize_attr_name_def)

lemma key_of_token:
  "set (normalize_attr_name (str_ndup (trim_right (takeWhile not_eq_comma (skip_ws p))) n))
     \<subseteq> normalize_char ` key_bytes p"
proof -
  let ?tok = "takeWhile not_eq_comma (skip_ws p)"
  have "set ?tok \<subseteq> {r \<in> set p. not_eq_comma r}"
    using set_takeWhileD[of _ not_eq_comma "skip_ws p"] set_dropWhileD[of _ is_blank p]
    by (auto simp: skip_ws_def)
  then have "set (str_ndup (trim_right ?tok) n) \<subseteq> key_bytes p"
    using set_str_ndup[of "trim_right ?tok" n] set_trim_right[of ?tok]
    by (auto simp: key_bytes_def)
  then show ?thesis
    using set_normalize_attr_name[of "str_ndup (trim_right ?tok) n"] by blast
qed

lemma set_step_over: "set (step_over s) \<subseteq> set s"
  by (cases s) (auto simp: step_over_def)

lemma set_quoted_rest:
  assumes "quoted_value q p = (v, r)"
  shows "set r \<subseteq> set p"
proof -
  have "set (dropWhile (\<lambda>c. c \<noteq> q) p) \<subseteq> set p"
    using set_dropWhileD by fastforce
  with assms show ?thesis
    by (auto simp: quoted_value_def Let_def split: list.splits)
qed

lemma key_bytes_mono: "set a \<subseteq> set b \<Longrightarrow> key_bytes a \<subseteq> key_bytes b"
  by (auto simp: key_bytes_def)

lemma set_tl_subset: "set (tl xs) \<subseteq> set xs"
  by (cases xs) auto

lemma parse_attributes_keys:
  "(k, v) \<in> set (parse_attributes p) \<Longrightarrow> set k \<subseteq> normalize_char ` key_bytes p"
proof (induction p rule: parse_attributes.induct)
  case (1 p)
  let ?p1 = "skip_ws p"
  let ?eq = "dropWhile not_eq_comma ?p1"
  have p1: "set ?p1 \<subseteq> set p"
    using set_dropWhileD[of _ is_blank p] by (auto simp: skip_ws_def)
  have eq: "set ?eq \<subseteq> set p"
    using set_dropWhileD[of _ not_eq_comma ?p1] p1 by auto
  have mem: "(k, v) \<in> set (parse_attributes p)" by fact
  show ?case
  proof (cases "?p1 = []")
    case True
    then show ?thesis using mem by (subst (asm) parse_attributes.simps) (simp add: Let_def)
  next
    case ne: False
    show ?thesis
    proof (cases "?eq = [] \<or> hd ?eq = CHR '',''")
      case True
      let ?rest = "step_over ?eq"
      have "k = [] \<or> (k, v) \<in> set (parse_attributes ?rest)"
        using mem ne True
        by (subst (asm) parse_attributes.simps) (auto simp: Let_def split: if_splits)
      moreover have "(k, v) \<in> set (parse_attributes ?rest) \<Longrightarrow> set k \<subseteq> normalize_char ` key_bytes ?rest"
        using "1.IH"(1)[OF refl ne refl refl True refl] by simp
      moreover have "key_bytes ?rest \<subseteq> key_bytes p"
        using set_step_over[of ?eq] eq by (intro key_bytes_mono) auto
      ultimately show ?thesis by auto
    next
      case False
      let ?p2 = "skip_ws (tl ?eq)"
      have p2: "set ?p2 \<subseteq> set p"
        using set_dropWhileD[of _ is_blank "tl ?eq"] set_tl_subset[of ?eq] eq
        by (auto simp: skip_ws_def)
      let ?key = "normalize_attr_name (str_ndup (trim_right (takeWhile not_eq_comma ?p1)) (length (trim_right (takeWhile not_eq_comma ?p1))))"
      have keyok: "set ?key \<subseteq> normalize_char ` key_bytes p"
        by (rule key_of_token)
      show ?thesis
      proof (cases "?p2 \<noteq> [] \<and> (hd ?p2 = CHR 0x22 \<or> hd ?p2 = CHR 0x27)")
        case q: True
        obtain qv p3 where qv: "quoted_value (hd ?p2) (tl ?p2) = (qv, p3)"
          by (cases "quoted_value (hd ?p2) (tl ?p2)") auto
        let ?rest = "step_over (dropWhile not_comma p3)"
        have "k = ?key \<or> (k, v) \<in> set (parse_attributes ?rest)"
          using mem ne False q qv
          by (subst (asm) parse_attributes.simps) (auto simp: Let_def split: if_splits)
        moreover have "(k, v) \<in> set (parse_attributes ?rest) \<Longrightarrow> set k \<subseteq> normalize_char ` key_bytes ?rest"
          using "1.IH"(2)[OF refl ne refl refl False refl refl q qv[symmetric] refl] by simp
        moreover have "set ?rest \<subseteq> set p"
          using set_step_over[of "dropWhile not_comma p3"] set_dropWhileD[of _ not_comma p3]
            set_quoted_rest[OF qv] set_tl_subset[of ?p2] p2 by blast
        then have "key_bytes ?rest \<subseteq> key_bytes p" by (rule key_bytes_mono)
        ultimately show ?thesis using keyok by auto
      next
        case nq: False
        let ?rest = "step_over (dropWhile not_comma ?p2)"
        have "k = ?key \<or> (k, v) \<in> set (parse_attributes ?rest)"
          using mem ne False nq
          by (subst (asm) parse_attributes.simps) (auto simp: Let_def split: if_splits)
        moreover have "(k, v) \<in> set (parse_attributes ?rest) \<Longrightarrow> set k \<subseteq> normalize_char ` key_bytes ?rest"
          using "1.IH"(3)[OF refl ne refl refl False refl refl nq refl] by simp
        moreover have "set ?rest \<subseteq> set p"
          using set_step_over[of "dropWhile not_comma ?p2"] set_dropWhileD[of _ not_comma ?p2] p2
          by blast
        then have "key_bytes ?rest \<subseteq> key_bytes p" by (rule key_bytes_mono)
        ultimately show ?thesis using keyok by auto
      qed
    qed
  qed
qed

section \<open>Numbers and key words\<close>

lemma strtod_quoted:
  assumes "q = CHR 0x22 \<or> q = CHR 0x27"
  shows "strtod (q # rest) = zero_double"
  using assms by (auto simp: strtod_def c_isspace_def c_isdigit_def Let_def)

lemma duration_keyword_found:
  assumes "i + 8 \<le> n"
    and "take 8 (drop i c) = ''DURATION'' \<or> take 8 (drop i c) = ''duration''"
  shows "duration_keyword c n"
  using assms
proof (induction i arbitrary: c n)
  case 0
  then obtain r where "c = ''DURATION'' @ r \<or> c = ''duration'' @ r"
    by (metis append_take_drop_id drop0)
  moreover have "c_toupper_ascii (CHR ''D'') = CHR ''D''" "c_toupper_ascii (CHR ''d'') = CHR ''D''"
    by code_simp+
  ultimately show ?case using 0(1) by auto
next
  case (Suc i)
  from Suc.prems(2) have "drop (Suc i) c \<noteq> []" by auto
  then obtain x xs where c: "c = x # xs" by (cases c) auto
  have "duration_keyword xs (n - 1)"
    using Suc.IH[of "n - 1" xs] Suc.prems by (simp add: c)
  then show ?case using Suc.prems(1) by (simp add: c)
qed

section \<open>SCTE-35 and asset metadata at finalization\<close>

text \<open>
  Claim C1.  Let a URI line finalize a segment: it is not a tag line and arrives, after any
  lines \<open>pre\<close> of a parse, while \<^verbatim>\<open>expect_segment\<close> is set.  The segment appended to
  the document carries the four pending SCTE-35 strings (\<^verbatim>\<open>scte35\<close>, \<^verbatim>\<open>oatcls_scte35\<close>,
  \<^verbatim>\<open>scte35_duration\<close>, \<^verbatim>\<open>scte35_elapsedtime\<close>) and the pending asset metadata of the
  state.  If \<^verbatim>\<open>cue_out\<close> is set at that moment they were copied and the state keeps all
  five values; otherwise they were moved, the four strings of the state become
  \<^verbatim>\<open>NULL\<close> and its asset metadata list becomes empty.
\<close>

theorem scte35_ownership:
  assumes "after_lines pre = (d, s)"
    and "\<not> is_tag_line l"
    and "st_expect_segment s"
    and "after_lines (pre @ [l]) = (d', s')"
  shows "\<exists>seg. segments d' = segments d @ [seg] \<and>
     seg_scte35 seg = st_current_cue_out_scte35 s \<and>
     seg_oatcls_scte35 seg = st_current_cue_out_oatcls_scte35 s \<and>
     seg_scte35_duration seg = st_current_cue_out_duration s \<and>
     seg_scte35_elapsedtime seg = st_current_cue_out_elapsedtime s \<and>
     seg_asset_metadata seg = st_asset_metadata s \<and>
     (if st_cue_out s
      then st_current_cue_out_scte35 s' = st_current_cue_out_scte35 s \<and>
           st_current_cue_out_oatcls_scte35 s' = st_current_cue_out_oatcls_scte35 s \<and>
           st_current_cue_out_duration s' = st_current_cue_out_duration s \<and>
           st_current_cue_out_elapsedtime s' = st_current_cue_out_elapsedtime s \<and>
           st_asset_metadata s' = st_asset_metadata s
      else st_current_cue_out_scte35 s' = None \<and>
           st_current_cue_out_oatcls_scte35 s' = None \<and>
           st_current_cue_out_duration s' = None \<and>
           st_current_cue_out_elapsedtime s' = None \<and>
           st_asset_metadata s' = [])"
proof -
  have step: "(d', s') = finalize_segment d s (fst l) (snd l)"
    using assms by (simp add: after_lines_def run_lines_snoc process_line_finalize)
  have "pending_ok s" using pending_ok_after_lines[of pre] assms(1) by simp
  then have fresh: "seg_asset_metadata (ensure_segment s) = []"
    using unfinalized_fields(3)[OF unfinalized_ensure] by simp
  let ?seg = "finalized d s (fst l) (snd l)"
  have d': "d' = d\<lparr>segments := segments d @ [?seg]\<rparr>"
    using step finalize_segment_appends[of d s "fst l" "snd l"] by (metis fst_conv)
  have s': "s' = snd (finalize_segment d s (fst l) (snd l))"
    using step by (metis snd_conv)
  have "segments d' = segments d @ [?seg]" using d' by simp
  moreover have "seg_asset_metadata ?seg = st_asset_metadata s"
    using fresh by (simp add: finalized_fields)
  ultimately show ?thesis
    unfolding s' by (intro exI[of _ ?seg]) (simp add: finalize_segment_pending finalized_fields)
qed

text \<open>Both branches at work: inside a span opened by \<^verbatim>\<open>#EXT-X-CUE-OUT\<close> the state keeps
  the cue, outside (here after \<^verbatim>\<open>#EXT-OATCLS-SCTE35\<close> alone) it gives it away.\<close>

theorem scte35_ownership_witness:
  "(\<exists>seg. segments (fst (after_lines (map whole_line
        [''#EXT-X-CUE-OUT:DURATION=30,cue=c1'', ''#EXTINF:10,'', ''p1.ts''])))
      = [seg] \<and> seg_scte35 seg = Some ''c1'' \<and> seg_scte35_duration seg = Some ''30'') \<and>
   st_current_cue_out_scte35 (snd (after_lines (map whole_line
        [''#EXT-X-CUE-OUT:DURATION=30,cue=c1'', ''#EXTINF:10,'', ''p1.ts'']))) = Some ''c1'' \<and>
   (\<exists>seg. segments (fst (after_lines (map whole_line
        [''#EXT-OATCLS-SCTE35:c2'', ''#EXT-X-ASSET:CAID=7'', ''#EXTINF:10,'', ''p2.ts''])))
      = [seg] \<and> seg_scte35 seg = Some ''c2'' \<and> seg_asset_metadata seg = [(''caid'', ''7'')]) \<and>
   st_current_cue_out_scte35 (snd (after_lines (map whole_line
        [''#EXT-OATCLS-SCTE35:c2'', ''#EXT-X-ASSET:CAID=7'', ''#EXTINF:10,'', ''p2.ts''])))
      = None"
proof -
  let ?pre = "map whole_line [''#EXT-X-CUE-OUT:DURATION=30,cue=c1'', ''#EXTINF:10,'']"
  let ?u = "whole_line ''p1.ts''"
  let ?pre2 = "map whole_line [''#EXT-OATCLS-SCTE35:c2'', ''#EXT-X-ASSET:CAID=7'', ''#EXTINF:10,'']"
  let ?u2 = "whole_line ''p2.ts''"
  have a: "after_lines ?pre = (fst (after_lines ?pre), snd (after_lines ?pre))" by simp
  have b: "\<not> is_tag_line ?u" by code_simp
  have c: "st_expect_segment (snd (after_lines ?pre))" by code_simp
  have e: "after_lines (?pre @ [?u]) = (fst (after_lines (?pre @ [?u])), snd (after_lines (?pre @ [?u])))"
    by simp
  have v: "segments (fst (after_lines ?pre)) = []" "st_cue_out (snd (after_lines ?pre))"
    "st_current_cue_out_scte35 (snd (after_lines ?pre)) = Some ''c1''"
    "st_current_cue_out_duration (snd (after_lines ?pre)) = Some ''30''"
    by code_simp+
  have one: "(\<exists>seg. segments (fst (after_lines (?pre @ [?u]))) = [seg] \<and>
      seg_scte35 seg = Some ''c1'' \<and> seg_scte35_duration seg = Some ''30'') \<and>
      st_current_cue_out_scte35 (snd (after_lines (?pre @ [?u]))) = Some ''c1''"
    using scte35_ownership[OF a b c e] v by auto
  have a2: "after_lines ?pre2 = (fst (after_lines ?pre2), snd (after_lines ?pre2))" by simp
  have b2: "\<not> is_tag_line ?u2" by code_simp
  have c2: "st_expect_segment (snd (after_lines ?pre2))" by code_simp
  have e2: "after_lines (?pre2 @ [?u2]) =
      (fst (after_lines (?pre2 @ [?u2])), snd (after_lines (?pre2 @ [?u2])))"
    by simp
  have v2: "segments (fst (after_lines ?pre2)) = []" "\<not> st_cue_out (snd (after_lines ?pre2))"
    "st_current_cue_out_scte35 (snd (after_lines ?pre2)) = Some ''c2''"
    "st_asset_metadata (snd (after_lines ?pre2)) = [(''caid'', ''7'')]"
    by code_simp+
  have two: "(\<exists>seg. segments (fst (after_lines (?pre2 @ [?u2]))) = [seg] \<and>
      seg_scte35 seg = Some ''c2'' \<and> seg_asset_metadata seg = [(''caid'', ''7'')]) \<and>
      st_current_cue_out_scte35 (snd (after_lines (?pre2 @ [?u2]))) = None"
    using scte35_ownership[OF a2 b2 c2 e2] v2 by auto
  show ?thesis using one two by simp
qed

section \<open>Key and map references of a segment\<close>

text \<open>A URI line that finalizes a segment: where the segment stands in the returned
  document, and which key and map it points to.\<close>

lemma finalized_segment_references:
  assumes "scan_lines buf = pre @ l # post"
    and "\<not> is_tag_line l"
    and "st_expect_segment (snd (after_lines pre))"
  shows "let doc = fst (parse_buffer buf);
             i = length (segments (fst (after_lines pre)));
             ks = filter is_key_tag pre; ms = filter is_map_tag pre
         in i < length (segments doc) \<and>
            seg_uri (segments doc ! i) = Some (str_ndup (fst l) (snd l)) \<and>
            seg_key (segments doc ! i) = last_ref (length ks) \<and>
            seg_init_section (segments doc ! i) = last_ref (length ms) \<and>
            (ks \<noteq> [] \<longrightarrow> length ks \<le> length (keys doc) \<and>
               keys doc ! (length ks - 1) = key_of_line (last ks)) \<and>
            (ms \<noteq> [] \<longrightarrow> length ms \<le> length (segment_map doc) \<and>
               segment_map doc ! (length ms - 1) = map_of_line (last ms))"
proof -
  let ?d = "fst (after_lines pre)" and ?s = "snd (after_lines pre)"
  let ?all = "after_lines (scan_lines buf)"
  let ?doc = "fst (parse_buffer buf)"
  let ?i = "length (segments ?d)"
  let ?ks = "filter is_key_tag pre" and ?ms = "filter is_map_tag pre"
  let ?seg = "finalized ?d ?s (fst l) (snd l)"
  have one: "segments (fst (after_lines (pre @ [l]))) = segments ?d @ [?seg]"
    using segments_step[of ?d ?s l] assms(2,3) by (simp add: after_lines_def run_lines_snoc)
  have "?all = run_lines (after_lines (pre @ [l])) post"
    using assms(1) after_lines_append[of "pre @ [l]" post] by simp
  then obtain more where "segments (fst ?all) = (segments ?d @ [?seg]) @ more"
    using segments_run_lines[of "after_lines (pre @ [l])" post] one by auto
  then obtain more' where segs: "segments ?doc = segments ?d @ ?seg # more'"
    by (simp add: parse_buffer_segments)
  have i: "?i < length (segments ?doc)" and at: "segments ?doc ! ?i = ?seg"
    using segs by simp_all
  have k: "seg_key ?seg = last_ref (length ?ks)"
    by (simp add: finalized_fields current_key_after_lines)
  have m: "seg_init_section ?seg = last_ref (length ?ms)"
    by (simp add: finalized_fields current_map_after_lines)
  have keys: "keys ?doc = map key_of_line ?ks @ map key_of_line (filter is_key_tag (l # post))"
    using assms(1) by (simp add: parse_buffer_chains keys_after_lines)
  have maps: "segment_map ?doc = map map_of_line ?ms @ map map_of_line (filter is_map_tag (l # post))"
    using assms(1) by (simp add: parse_buffer_chains segment_map_after_lines)
  have kk: "?ks \<noteq> [] \<longrightarrow> length ?ks \<le> length (keys ?doc) \<and>
      keys ?doc ! (length ?ks - 1) = key_of_line (last ?ks)"
  proof
    assume ne: "?ks \<noteq> []"
    then have "length ?ks - 1 < length (map key_of_line ?ks)" by simp
    then have "keys ?doc ! (length ?ks - 1) = map key_of_line ?ks ! (length ?ks - 1)"
      unfolding keys by (simp only: nth_append if_True)
    also have "\<dots> = key_of_line (last ?ks)"
      using ne by (simp add: last_conv_nth)
    finally show "length ?ks \<le> length (keys ?doc) \<and>
      keys ?doc ! (length ?ks - 1) = key_of_line (last ?ks)"
      by (simp add: keys)
  qed
  have mm: "?ms \<noteq> [] \<longrightarrow> length ?ms \<le> length (segment_map ?doc) \<and>
      segment_map ?doc ! (length ?ms - 1) = map_of_line (last ?ms)"
  proof
    assume ne: "?ms \<noteq> []"
    then have "length ?ms - 1 < length (map map_of_line ?ms)" by simp
    then have "segment_map ?doc ! (length ?ms - 1) = map map_of_line ?ms ! (length ?ms - 1)"
      unfolding maps by (simp only: nth_append if_True)
    also have "\<dots> = map_of_line (last ?ms)"
      using ne by (simp add: last_conv_nth)
    finally show "length ?ms \<le> length (segment_map ?doc) \<and>
      segment_map ?doc ! (length ?ms - 1) = map_of_line (last ?ms)"
      by (simp add: maps)
  qed
  have "?i < length (segments ?doc) \<and>
      seg_uri (segments ?doc ! ?i) = Some (str_ndup (fst l) (snd l)) \<and>
      seg_key (segments ?doc ! ?i) = last_ref (length ?ks) \<and>
      seg_init_section (segments ?doc ! ?i) = last_ref (length ?ms)"
    using i at k m by (simp add: finalized_fields)
  then show ?thesis
    unfolding Let_def using kk mm by blast
qed

text \<open>What the end of the input appends: the segment in progress, if there is one, and
  nothing otherwise.\<close>

lemma end_of_input_segment_fields:
  assumes "st_current_segment (snd (after_lines (scan_lines buf))) = Some seg"
  shows "segments (fst (parse_buffer buf)) =
           segments (fst (after_lines (scan_lines buf))) @ [seg] \<and>
         seg_uri seg = None \<and> seg_key seg = None \<and> seg_init_section seg = None"
proof -
  have "pending_ok (snd (after_lines (scan_lines buf)))" by (rule pending_ok_after_lines)
  then have "unfinalized seg" using assms by (simp add: pending_ok_def)
  then show ?thesis
    using assms by (simp add: parse_buffer_segments unfinalized_fields)
qed

lemma no_end_of_input_segment:
  assumes "st_current_segment (snd (after_lines (scan_lines buf))) = None"
  shows "segments (fst (parse_buffer buf)) = segments (fst (after_lines (scan_lines buf)))"
  using assms by (simp add: parse_buffer_segments)

text \<open>
  Claim C2, as the code has it.  (1) Let \<open>l\<close> be a URI line of the buffer that finalizes a
  segment, after the lines \<open>pre\<close>.  In the returned document that segment stands at the
  position it was appended at and has the URI of the line; its \<^verbatim>\<open>key\<close> is the pointer to
  the last of the keys built from the \<^verbatim>\<open>#EXT-X-KEY\<close> lines of \<open>pre\<close>, an element of the
  document's \<^verbatim>\<open>keys\<close> chain that is the key of the most recent such line, or \<^verbatim>\<open>NULL\<close>
  when \<open>pre\<close> has none; likewise its \<^verbatim>\<open>init_section\<close> for \<^verbatim>\<open>#EXT-X-MAP\<close> and the
  \<^verbatim>\<open>segment_map\<close> chain.  (2) For every buffer, a segment still in progress at the end
  of the input is appended as it is, after the finalized ones: its URI, its key and its
  init section are \<^verbatim>\<open>NULL\<close>, whatever tags came before; with no segment in progress the
  end of the input appends nothing.  (3) For every buffer, every non-null key or init
  section of every segment of the document points to an element of the document's chain.
\<close>

theorem segment_key_references:
  "(\<forall>pre l post.
      scan_lines buf = pre @ l # post \<and> \<not> is_tag_line l \<and>
      st_expect_segment (snd (after_lines pre)) \<longrightarrow>
      (let doc = fst (parse_buffer buf);
           i = length (segments (fst (after_lines pre)));
           ks = filter is_key_tag pre; ms = filter is_map_tag pre
       in i < length (segments doc) \<and>
          seg_uri (segments doc ! i) = Some (str_ndup (fst l) (snd l)) \<and>
          seg_key (segments doc ! i) = last_ref (length ks) \<and>
          seg_init_section (segments doc ! i) = last_ref (length ms) \<and>
          (ks \<noteq> [] \<longrightarrow> length ks \<le> length (keys doc) \<and>
             keys doc ! (length ks - 1) = key_of_line (last ks)) \<and>
          (ms \<noteq> [] \<longrightarrow> length ms \<le> length (segment_map doc) \<and>
             segment_map doc ! (length ms - 1) = map_of_line (last ms)))) \<and>
   (case st_current_segment (snd (after_lines (scan_lines buf))) of
      Some seg \<Rightarrow>
        segments (fst (parse_buffer buf)) =
          segments (fst (after_lines (scan_lines buf))) @ [seg] \<and>
        seg_uri seg = None \<and> seg_key seg = None \<and> seg_init_section seg = None
    | None \<Rightarrow>
        segments (fst (parse_buffer buf)) = segments (fst (after_lines (scan_lines buf)))) \<and>
   (\<forall>seg \<in> set (segments (fst (parse_buffer buf))).
      (\<forall>k. seg_key seg = Some k \<longrightarrow> k < length (keys (fst (parse_buffer buf)))) \<and>
      (\<forall>m. seg_init_section seg = Some m \<longrightarrow>
         m < length (segment_map (fst (parse_buffer buf)))))"
proof (intro conjI)
  show "\<forall>pre l post.
      scan_lines buf = pre @ l # post \<and> \<not> is_tag_line l \<and>
      st_expect_segment (snd (after_lines pre)) \<longrightarrow>
      (let doc = fst (parse_buffer buf);
           i = length (segments (fst (after_lines pre)));
           ks = filter is_key_tag pre; ms = filter is_map_tag pre
       in i < length (segments doc) \<and>
          seg_uri (segments doc ! i) = Some (str_ndup (fst l) (snd l)) \<and>
          seg_key (segments doc ! i) = last_ref (length ks) \<and>
          seg_init_section (segments doc ! i) = last_ref (length ms) \<and>
          (ks \<noteq> [] \<longrightarrow> length ks \<le> length (keys doc) \<and>
             keys doc ! (length ks - 1) = key_of_line (last ks)) \<and>
          (ms \<noteq> [] \<longrightarrow> length ms \<le> length (segment_map doc) \<and>
             segment_map doc ! (length ms - 1) = map_of_line (last ms)))"
    using finalized_segment_references by blast
  show "case st_current_segment (snd (after_lines (scan_lines buf))) of
      Some seg \<Rightarrow>
        segments (fst (parse_buffer buf)) =
          segments (fst (after_lines (scan_lines buf))) @ [seg] \<and>
        seg_uri seg = None \<and> seg_key seg = None \<and> seg_init_section seg = None
    | None \<Rightarrow>
        segments (fst (parse_buffer buf)) = segments (fst (after_lines (scan_lines buf)))"
    using end_of_input_segment_fields[of buf] no_end_of_input_segment[of buf]
    by (cases "st_current_segment (snd (after_lines (scan_lines buf)))") simp_all
  show "\<forall>seg \<in> set (segments (fst (parse_buffer buf))).
      (\<forall>k. seg_key seg = Some k \<longrightarrow> k < length (keys (fst (parse_buffer buf)))) \<and>
      (\<forall>m. seg_init_section seg = Some m \<longrightarrow>
         m < length (segment_map (fst (parse_buffer buf))))"
    by (rule segment_refs_valid)
qed

text \<open>The sticky-key scenario: the second segment points to the second key, the one with
  method \<^verbatim>\<open>NONE\<close>.  And a buffer that ends in an \<^verbatim>\<open>#EXTINF\<close> with no URI line, after a
  key, a finalized segment and a map: the first segment points to the key, the one
  appended at the end of the input has no URI, no key and no init section.\<close>

theorem segment_key_references_witness:
  "seg_uri (segments (fst (parse_buffer sticky_key_buffer)) ! 1) = Some ''b.ts'' \<and>
   seg_key (segments (fst (parse_buffer sticky_key_buffer)) ! 1) = Some 1 \<and>
   seg_init_section (segments (fst (parse_buffer sticky_key_buffer)) ! 1) = None \<and>
   key_method (keys (fst (parse_buffer sticky_key_buffer)) ! 1) = Some ''NONE'' \<and>
   length (segments (fst (parse_buffer pending_segment_buffer))) = 2 \<and>
   seg_uri (segments (fst (parse_buffer pending_segment_buffer)) ! 0) = Some ''a.ts'' \<and>
   seg_key (segments (fst (parse_buffer pending_segment_buffer)) ! 0) = Some 0 \<and>
   seg_uri (segments (fst (parse_buffer pending_segment_buffer)) ! 1) = None \<and>
   seg_key (segments (fst (parse_buffer pending_segment_buffer)) ! 1) = None \<and>
   seg_init_section (segments (fst (parse_buffer pending_segment_buffer)) ! 1) = None \<and>
   length (keys (fst (parse_buffer pending_segment_buffer))) = 1 \<and>
   length (segment_map (fst (parse_buffer pending_segment_buffer))) = 1"
proof -
  let ?ls = "scan_lines sticky_key_buffer"
  let ?pre = "take 5 ?ls" and ?l = "?ls ! 5" and ?post = "drop 6 ?ls"
  have a: "?ls = ?pre @ ?l # ?post" by code_simp
  have b: "\<not> is_tag_line ?l" by code_simp
  have c: "st_expect_segment (snd (after_lines ?pre))" by code_simp
  have abc: "?ls = ?pre @ ?l # ?post \<and> \<not> is_tag_line ?l \<and>
      st_expect_segment (snd (after_lines ?pre))"
    using a b c by (intro conjI)
  note all = segment_key_references[of sticky_key_buffer]
  note t = all[THEN conjunct1, rule_format, OF abc, unfolded Let_def]
  have i: "length (segments (fst (after_lines ?pre))) = 1" by code_simp
  have k: "length (filter is_key_tag ?pre) = 2" "filter is_key_tag ?pre \<noteq> []"
    "length (filter is_map_tag ?pre) = 0" by code_simp+
  have u: "str_ndup (fst ?l) (snd ?l) = ''b.ts''" by code_simp
  have m: "key_method (key_of_line (last (filter is_key_tag ?pre))) = Some ''NONE''" by code_simp
  have s1: "seg_uri (segments (fst (parse_buffer sticky_key_buffer)) ! 1) = Some ''b.ts''"
    using t i u by simp
  have s2: "seg_key (segments (fst (parse_buffer sticky_key_buffer)) ! 1) = Some 1"
    using t i k by (simp add: last_ref_def)
  have s3: "seg_init_section (segments (fst (parse_buffer sticky_key_buffer)) ! 1) = None"
    using t i k by (simp add: last_ref_def)
  have s4: "key_method (keys (fst (parse_buffer sticky_key_buffer)) ! 1) = Some ''NONE''"
    using t k m by simp
  let ?end = "after_lines (scan_lines pending_segment_buffer)"
  let ?doc = "fst (parse_buffer pending_segment_buffer)"
  have cur: "st_current_segment (snd ?end) \<noteq> None" by code_simp
  then obtain seg where seg: "st_current_segment (snd ?end) = Some seg" by auto
  have n: "length (segments (fst ?end)) = 1" by code_simp
  have f: "seg_uri (segments (fst ?end) ! 0) = Some ''a.ts''"
    "seg_key (segments (fst ?end) ! 0) = Some 0" by code_simp+
  have ch: "length (keys (fst ?end)) = 1" "length (segment_map (fst ?end)) = 1" by code_simp+
  have e: "segments ?doc = segments (fst ?end) @ [seg] \<and>
      seg_uri seg = None \<and> seg_key seg = None \<and> seg_init_section seg = None"
    using segment_key_references[of pending_segment_buffer, THEN conjunct2, THEN conjunct1] seg
    by simp
  have p1: "length (segments ?doc) = 2" using e n by simp
  have p2: "seg_uri (segments ?doc ! 0) = Some ''a.ts''" "seg_key (segments ?doc ! 0) = Some 0"
    using e n f by (simp_all add: nth_append)
  have p3: "seg_uri (segments ?doc ! 1) = None" "seg_key (segments ?doc ! 1) = None"
    "seg_init_section (segments ?doc ! 1) = None"
    using e n by (simp_all add: nth_append)
  have p4: "length (keys ?doc) = 1" "length (segment_map ?doc) = 1"
    using ch by (simp_all add: parse_buffer_chains)
  show ?thesis using s1 s2 s3 s4 p1 p2 p3 p4 by (intro conjI)
qed

text \<open>
  Claim C2 as stated fails for the segment appended at the end of the input: after an
  \<^verbatim>\<open>#EXT-X-KEY\<close> and an \<^verbatim>\<open>#EXT-X-MAP\<close> tag, an \<^verbatim>\<open>#EXTINF\<close> with no URI line yields a
  segment whose key and init section are \<^verbatim>\<open>NULL\<close>, although the document holds one key
  and one map.
\<close>

theorem end_of_input_segment_key_counterexample:
  "map (\<lambda>seg. (seg_uri seg, seg_key seg, seg_init_section seg))
     (segments (fst (parse_buffer
        ''#EXT-X-KEY:METHOD=AES-128\<newline>#EXT-X-MAP:URI=i.mp4\<newline>#EXTINF:4,\<newline>'')))
     = [(None, None, None)] \<and>
   length (keys (fst (parse_buffer
        ''#EXT-X-KEY:METHOD=AES-128\<newline>#EXT-X-MAP:URI=i.mp4\<newline>#EXTINF:4,\<newline>''))) = 1 \<and>
   length (segment_map (fst (parse_buffer
        ''#EXT-X-KEY:METHOD=AES-128\<newline>#EXT-X-MAP:URI=i.mp4\<newline>#EXTINF:4,\<newline>''))) = 1"
  by code_simp

section \<open>Pending date ranges and asset metadata\<close>

text \<open>
  Claim C3, as the code has it.  Let the URI line \<open>u\<close> finalize a segment after the lines
  \<open>pre\<close>, let \<open>mid\<close> be tag lines none of which is an \<^verbatim>\<open>#EXT-X-PART\<close> tag, and let the URI
  line \<open>u2\<close> finalize the next segment.  The first segment takes the whole pending list
  of date ranges and the pending asset metadata, and the pending list is then empty; the
  second segment's date ranges are exactly those of the \<^verbatim>\<open>#EXT-X-DATERANGE\<close> lines of
  \<open>mid\<close>, latest first, so none of the first segment's.  The pending asset metadata is
  cleared only if \<^verbatim>\<open>cue_out\<close> is not set at the finalization; while it is set the list stays
  pending.  An \<^verbatim>\<open>#EXT-X-PART\<close> line moves the pending date ranges into the part it appends
  and empties the pending list.  When \<open>m3u8_parse\<close> returns, the pending list is empty:
  what was left has been freed without being attached.
\<close>

theorem pending_dateranges_attached_once:
  assumes "after_lines pre = (d, s)"
    and "\<not> is_tag_line u"
    and "st_expect_segment s"
    and "\<forall>l \<in> set mid. is_tag_line l \<and> \<not> is_part_tag l"
    and "\<not> is_tag_line u2"
    and "st_expect_segment (snd (after_lines (pre @ u # mid)))"
  shows "(\<exists>seg seg2.
            segments (fst (after_lines (pre @ [u]))) = segments d @ [seg] \<and>
            seg_dateranges seg = st_dateranges s \<and>
            seg_asset_metadata seg = st_asset_metadata s \<and>
            segments (fst (after_lines (pre @ u # mid @ [u2]))) = segments d @ [seg, seg2] \<and>
            seg_dateranges seg2 = rev (map daterange_of_line (filter is_daterange_tag mid))) \<and>
         st_dateranges (snd (after_lines (pre @ [u]))) = [] \<and>
         st_asset_metadata (snd (after_lines (pre @ [u]))) =
           (if st_cue_out s then st_asset_metadata s else []) \<and>
         st_dateranges (snd (parse_buffer buf)) = [] \<and>
         (\<forall>d0 s0 l. is_part_tag l \<longrightarrow>
            st_dateranges (snd (process_line (d0, s0) l)) = [] \<and>
            (\<exists>seg. st_current_segment (snd (process_line (d0, s0) l)) = Some seg \<and>
               seg_parts seg \<noteq> [] \<and>
               part_dateranges (last (seg_parts seg)) = st_dateranges s0))"
proof -
  let ?e = "after_lines (pre @ [u])"
  let ?f = "after_lines (pre @ u # mid)"
  let ?g = "after_lines (pre @ u # mid @ [u2])"
  let ?seg = "finalized d s (fst u) (snd u)"
  let ?seg2 = "finalized (fst ?f) (snd ?f) (fst u2) (snd u2)"
  have e: "?e = finalize_segment d s (fst u) (snd u)"
    using assms(1-3) by (simp add: after_lines_def run_lines_snoc process_line_finalize)
  have "pending_ok s" using pending_ok_after_lines[of pre] assms(1) by simp
  then have fresh: "seg_asset_metadata (ensure_segment s) = []"
    using unfinalized_fields(3)[OF unfinalized_ensure] by simp
  have seg: "segments (fst ?e) = segments d @ [?seg]" "seg_dateranges ?seg = st_dateranges s"
    "seg_asset_metadata ?seg = st_asset_metadata s"
    unfolding e using fresh by (simp_all add: finalize_segment_appends finalized_fields)
  have est: "st_dateranges (snd ?e) = []"
    "st_asset_metadata (snd ?e) = (if st_cue_out s then st_asset_metadata s else [])"
    unfolding e by (simp_all add: finalize_segment_state finalize_segment_pending)
  have f: "?f = run_lines ?e mid"
    using after_lines_append[of "pre @ [u]" mid] by simp
  have fdr: "st_dateranges (snd ?f) = rev (map daterange_of_line (filter is_daterange_tag mid))"
    and fseg: "segments (fst ?f) = segments d @ [?seg]"
    unfolding f using dateranges_run[OF assms(4), of ?e] est(1) seg(1) by simp_all
  have "?g = process_line (fst ?f, snd ?f) u2"
    using after_lines_append[of "pre @ u # mid" "[u2]"] by (simp add: run_lines_def)
  then have g: "?g = finalize_segment (fst ?f) (snd ?f) (fst u2) (snd u2)"
    using process_line_finalize[OF assms(5,6), of "fst ?f"] by simp
  have seg2: "segments (fst ?g) = segments d @ [?seg, ?seg2]"
    "seg_dateranges ?seg2 = rev (map daterange_of_line (filter is_daterange_tag mid))"
    unfolding g using fseg fdr by (simp_all add: finalize_segment_appends finalized_fields)
  have fin: "st_dateranges (snd (parse_buffer buf)) = []"
    by (simp add: parse_buffer_def Let_def free_pending_dateranges_empty)
  have part: "\<forall>d0 s0 l. is_part_tag l \<longrightarrow>
            st_dateranges (snd (process_line (d0, s0) l)) = [] \<and>
            (\<exists>seg. st_current_segment (snd (process_line (d0, s0) l)) = Some seg \<and>
               seg_parts seg \<noteq> [] \<and>
               part_dateranges (last (seg_parts seg)) = st_dateranges s0)"
    using part_takes_dateranges by blast
  have "\<exists>seg seg2.
            segments (fst ?e) = segments d @ [seg] \<and>
            seg_dateranges seg = st_dateranges s \<and>
            seg_asset_metadata seg = st_asset_metadata s \<and>
            segments (fst ?g) = segments d @ [seg, seg2] \<and>
            seg_dateranges seg2 = rev (map daterange_of_line (filter is_daterange_tag mid))"
    using seg seg2 by blast
  then show ?thesis using est fin part by blast
qed

theorem pending_dateranges_witness:
  "map (map dr_id \<circ> seg_dateranges) (segments (fst (after_lines
      (map whole_line [''#EXT-X-DATERANGE:ID=d1'', ''#EXTINF:4,'', ''a.ts'',
         ''#EXT-X-DATERANGE:ID=d2'', ''#EXT-X-DATERANGE:ID=d3'', ''#EXTINF:4,'', ''b.ts'']))))
   = [[Some ''d1''], [Some ''d3'', Some ''d2'']]"
proof -
  let ?pre = "map whole_line [''#EXT-X-DATERANGE:ID=d1'', ''#EXTINF:4,'']"
  let ?u = "whole_line ''a.ts''"
  let ?mid = "map whole_line [''#EXT-X-DATERANGE:ID=d2'', ''#EXT-X-DATERANGE:ID=d3'', ''#EXTINF:4,'']"
  let ?u2 = "whole_line ''b.ts''"
  have a: "after_lines ?pre = (fst (after_lines ?pre), snd (after_lines ?pre))" by simp
  have b: "\<not> is_tag_line ?u" by code_simp
  have c: "st_expect_segment (snd (after_lines ?pre))" by code_simp
  have e: "\<forall>l \<in> set ?mid. is_tag_line l \<and> \<not> is_part_tag l" by code_simp
  have f: "\<not> is_tag_line ?u2" by code_simp
  have g: "st_expect_segment (snd (after_lines (?pre @ ?u # ?mid)))" by code_simp
  have h: "segments (fst (after_lines ?pre)) = []" by code_simp
  have i: "map dr_id (st_dateranges (snd (after_lines ?pre))) = [Some ''d1'']" by code_simp
  have j: "map dr_id (rev (map daterange_of_line (filter is_daterange_tag ?mid)))
      = [Some ''d3'', Some ''d2'']" by code_simp
  obtain seg seg2 where
    s: "segments (fst (after_lines (?pre @ ?u # ?mid @ [?u2]))) =
          segments (fst (after_lines ?pre)) @ [seg, seg2]"
      "seg_dateranges seg = st_dateranges (snd (after_lines ?pre))"
      "seg_dateranges seg2 = rev (map daterange_of_line (filter is_daterange_tag ?mid))"
    using pending_dateranges_attached_once[OF a b c e f g] by blast
  have "map (map dr_id \<circ> seg_dateranges) (segments (fst (after_lines (?pre @ ?u # ?mid @ [?u2]))))
      = [[Some ''d1''], [Some ''d3'', Some ''d2'']]"
    unfolding s(1) h using s(2,3) i j by simp
  then show ?thesis by simp
qed

text \<open>
  Claim C3 as stated fails: an asset metadata list staged before a cue-out span is
  attached to the first segment of the span and again to the segment after it, and a
  date range that follows the last URI line is attached to no segment.
\<close>

theorem asset_metadata_counterexample:
  "map seg_asset_metadata (segments (fst (parse_buffer
      ''#EXT-X-ASSET:CAID=1\<newline>#EXT-X-CUE-OUT:30\<newline>#EXTINF:4,\<newline>a.ts\<newline>#EXTINF:4,\<newline>b.ts\<newline>'')))
     = [[(''caid'', ''1'')], [(''caid'', ''1'')]] \<and>
   map seg_dateranges (segments (fst (parse_buffer
      ''#EXTINF:4,\<newline>a.ts\<newline>#EXT-X-DATERANGE:ID=d1\<newline>''))) = [[]]"
  by code_simp

section \<open>The cue-out flags of a span\<close>




section \<open>The DURATION key word of a cue-out tag\<close>

text \<open>The scan finds the key word in upper case and in lower case, wherever it stands in
  the line.\<close>

lemma cue_out_exact_case_duration:
  assumes "is_cue_out_tag l"
    and "i + 8 \<le> snd l"
    and "take 8 (drop i (fst l)) = ''DURATION'' \<or> take 8 (drop i (fst l)) = ''duration''"
  shows "st_cue_out_explicitly_duration (snd (process_line (d, s) l))"
proof -
  have k: "duration_keyword (fst l) (snd l)"
    using duration_keyword_found[OF assms(2,3)] .
  have "starts_with (fst l) (snd l) ''#EXT-X-CUE-OUT''"
    using assms(1) by (simp add: is_cue_out_tag_def)
  then have n: "12 < snd l" using starts_withD by fastforce
  show ?thesis
    using k n dispatch_cue_out[OF assms(1), of d s]
    by (simp add: handle_cue_out_def Let_def split: option.splits)
qed

text \<open>
  Claim C5 does not hold of the code.  The claim asks for the flag whenever the body
  holds DURATION in any mixture of letter case; the scan of \<open>handle_cue_out\<close> compares
  with \<^verbatim>\<open>"DURATION"\<close> and \<^verbatim>\<open>"duration"\<close> only.  For the tag
  \<^verbatim>\<open>#EXT-X-CUE-OUT:Duration=30\<close> the next segment has \<^verbatim>\<open>cue_out\<close> set and
  \<^verbatim>\<open>cue_out_explicitly_duration\<close> clear.
\<close>

theorem cue_out_mixed_case_duration:
  "map (\<lambda>seg. (seg_uri seg, seg_cue_out seg, seg_cue_out_explicitly_duration seg))
     (segments (fst (parse_buffer
        ''#EXT-X-CUE-OUT:Duration=30\<newline>#EXTINF:10,\<newline>a.ts\<newline>'')))
   = [(Some ''a.ts'', True, False)]"
  by code_simp

section \<open>Normalized attribute keys\<close>

text \<open>
  Claim C6, as the code has it.  Every character of every key that the attribute lexer
  yields is the image, under the normalization of one character (a hyphen becomes an
  underscore, an upper-case ASCII letter its lower-case letter, any other character
  itself), of a byte of the lexed text other than \<open>=\<close>, the comma and NUL.  It is never a
  hyphen nor an upper-case ASCII letter, and it lies in \<^verbatim>\<open>[a-z0-9_]\<close> exactly when that byte
  lies in \<^verbatim>\<open>[A-Za-z0-9_-]\<close>.
\<close>

theorem normalized_key_characters:
  assumes "(k, v) \<in> set (parse_attributes p)" and "c \<in> set k"
  shows "c \<noteq> CHR ''-'' \<and> \<not> c_isupper c \<and>
         (\<exists>r \<in> key_bytes p. c = normalize_char r \<and> key_char c = raw_key_char r)"
proof -
  obtain r where r: "r \<in> key_bytes p" "c = normalize_char r"
    using parse_attributes_keys[OF assms(1)] assms(2) by auto
  then show ?thesis
    using normalize_char_not_hyphen[of r] normalize_char_not_upper[of r] normalize_char_key[of r]
    by auto
qed

theorem normalized_key_characters_witness:
  "(''c_d'', ''2'') \<in> set (parse_attributes ''A.B=1,C-D=2'') \<and>
   (\<exists>r \<in> key_bytes ''A.B=1,C-D=2''. CHR ''_'' = normalize_char r \<and>
      key_char (CHR ''_'') = raw_key_char r)"
proof -
  have a: "(''c_d'', ''2'') \<in> set (parse_attributes ''A.B=1,C-D=2'')" by code_simp
  have b: "CHR ''_'' \<in> set ''c_d''" by simp
  show ?thesis using a normalized_key_characters[OF a b] by simp
qed

text \<open>
  Claim C6 as stated fails: the lexer removes no character, so a dot in a key
  survives normalization.
\<close>

theorem normalized_key_counterexample:
  "parse_attributes ''A.B=1'' = [(''a.b'', ''1'')] \<and> \<not> key_char (CHR ''.'')"
  by code_simp

section \<open>The bandwidth of a variant\<close>

text \<open>
  Claim C7, as the code has it.  When the attributes of an \<^verbatim>\<open>#EXT-X-STREAM-INF\<close> line give
  \<^verbatim>\<open>bandwidth\<close> the raw value \<^verbatim>\<open>5000000.5\<close> (the attribute is written without quotes) and
  the next line is a URI line met while no segment is expected, the variant appended for
  that URI has bandwidth 5000000.
\<close>

theorem stream_inf_bandwidth:
  assumes "is_stream_inf_tag l" and "\<not> is_tag_line u" and "\<not> st_expect_segment s"
    and "get_attr (parse_attributes (params (fst l) (snd l) 18)) ''bandwidth''
           = Some ''5000000.5''"
  shows "\<exists>pl. playlists (fst (run_lines (d, s) [l, u])) = playlists d @ [pl] \<and>
           pl_uri pl = Some (str_ndup (fst u) (snd u)) \<and> pl_bandwidth pl = 5000000"
proof -
  let ?info = "parse_attributes (params (fst l) (snd l) 18)"
  let ?pl = "make_playlist ?info (fst u) (snd u)"
  have ne: "?info \<noteq> []" using assms(4) by auto
  have "run_lines (d, s) [l, u] = process_line (handle_stream_inf d s (fst l) (snd l)) u"
    using assms(1) by (simp add: run_lines_def dispatch_stream_inf)
  then have "playlists (fst (run_lines (d, s) [l, u])) = playlists d @ [?pl]"
    using assms(2,3) ne
    by (simp add: handle_stream_inf_def process_line_def process_uri_def finalize_playlist_def)
  moreover have "ll_of_double (strtod ''5000000.5'') = 5000000" by code_simp
  then have "pl_bandwidth ?pl = 5000000"
    using assms(4) by (simp add: make_playlist_def)
  moreover have "pl_uri ?pl = Some (str_ndup (fst u) (snd u))"
    by (simp add: make_playlist_def)
  ultimately show ?thesis by blast
qed

theorem stream_inf_bandwidth_witness:
  "map (\<lambda>pl. (pl_uri pl, pl_bandwidth pl))
     (playlists (fst (run_lines (new_data, new_state)
        (map whole_line [''#EXT-X-STREAM-INF:BANDWIDTH=5000000.5,CODECS=\"avc1\"'', ''v.m3u8'']))))
   = [(Some ''v.m3u8'', 5000000)]"
proof -
  let ?l = "whole_line ''#EXT-X-STREAM-INF:BANDWIDTH=5000000.5,CODECS=\"avc1\"''"
  let ?u = "whole_line ''v.m3u8''"
  have a: "is_stream_inf_tag ?l" by code_simp
  have b: "\<not> is_tag_line ?u" by code_simp
  have c: "\<not> st_expect_segment new_state" by code_simp
  have e: "get_attr (parse_attributes (params (fst ?l) (snd ?l) 18)) ''bandwidth''
      = Some ''5000000.5''" by code_simp
  have p: "playlists new_data = []" by code_simp
  have u: "str_ndup (fst ?u) (snd ?u) = ''v.m3u8''" by code_simp
  obtain pl where pl: "playlists (fst (run_lines (new_data, new_state) [?l, ?u])) = playlists new_data @ [pl]"
    "pl_uri pl = Some (str_ndup (fst ?u) (snd ?u))" "pl_bandwidth pl = 5000000"
    using stream_inf_bandwidth[OF a b c e, of new_data] by blast
  show ?thesis using pl p u by simp
qed

text \<open>
  Claim C7 as stated fails: written \<^verbatim>\<open>bandwidth="5000000.5"\<close>, the value keeps its
  quotes in the attribute list, \<^verbatim>\<open>strtod\<close> converts nothing of it and the bandwidth of the
  variant is 0.
\<close>

theorem quoted_bandwidth_counterexample:
  "map (\<lambda>pl. (pl_uri pl, pl_bandwidth pl))
     (playlists (fst (parse_buffer
        ''#EXT-X-STREAM-INF:bandwidth=\"5000000.5\"\<newline>v.m3u8\<newline>'')))
   = [(Some ''v.m3u8'', 0)]"
  by code_simp

section \<open>Unknown tag lines\<close>

text \<open>
  Claim C8.  A line that begins with \<open>#\<close> and starts with none of the prefixes the
  dispatcher tests leaves the document and the parser state as they were: the step of the
  loop for that line returns the pair it was given.
\<close>

theorem unknown_tag_ignored:
  assumes "is_tag_line l"
    and "\<forall>p \<in> set recognized_tags. \<not> starts_with (fst l) (snd l) p"
  shows "process_line (data, state) l = (data, state)"
proof -
  have "dispatch_tag (data, state) (fst l) (snd l) = (data, state)"
    using assms(2) unfolding recognized_tags_def dispatch_tag_def Let_def by simp
  then show ?thesis using assms(1) by (simp add: process_line_def)
qed

theorem unknown_tag_ignored_witness:
  "is_tag_line (''#EXT-X-FUTURE:1'', 15) \<and>
   list_all (\<lambda>p. \<not> starts_with ''#EXT-X-FUTURE:1'' 15 p) recognized_tags \<and>
   process_line (new_data, new_state) (''#EXT-X-FUTURE:1'', 15) = (new_data, new_state)"
proof -
  have a: "is_tag_line (''#EXT-X-FUTURE:1'', 15)"
    by code_simp
  have b: "list_all (\<lambda>p. \<not> starts_with ''#EXT-X-FUTURE:1'' 15 p) recognized_tags"
    by code_simp
  then have c: "\<forall>p \<in> set recognized_tags.
      \<not> starts_with (fst (''#EXT-X-FUTURE:1'', 15::nat)) (snd (''#EXT-X-FUTURE:1'', 15::nat)) p"
    by (simp add: list_all_iff)
  show ?thesis
    using a b unknown_tag_ignored[OF a c, of new_data new_state] by simp
qed

section \<open>Totality\<close>

text \<open>
  Claim C9.  With allocation failure set aside, \<open>m3u8_parse\<close> returns \<^verbatim>\<open>NULL\<close> exactly
  when the content pointer is null or the length is 0; on every other buffer it returns a
  document.  The loop it runs is a total function: \<open>parse_loop\<close> is defined with a
  termination proof, each iteration consuming at least one byte.
\<close>

theorem parse_total:
  "(m3u8_parse content = None) = (content = None \<or> content = Some [])"
  by (cases content) (auto simp: m3u8_parse_def)

theorem parse_total_witness:
  "m3u8_parse None = None \<and> m3u8_parse (Some []) = None \<and>
   m3u8_parse (Some ''#EXTINF:x,\<newline>\<newline>=,,\<newline>'') \<noteq> None"
  using parse_total[of None] parse_total[of "Some []"]
    parse_total[of "Some ''#EXTINF:x,\<newline>\<newline>=,,\<newline>''"]
  by simp

section \<open>A stream-inf tag without attributes\<close>

text \<open>
  Claim C10, as the code has it.  Let the body of an \<^verbatim>\<open>#EXT-X-STREAM-INF:\<close> line lex to the
  empty attribute list and let a URI line follow it while no segment is expected
  (\<^verbatim>\<open>expect_segment\<close> is clear).  The URI line appends no variant and changes nothing in
  the document: the playlists and the segments are as before the tag, the URI is
  dropped, and \<^verbatim>\<open>expect_playlist\<close>, set by the tag, is cleared.
\<close>

theorem empty_stream_inf_drops_uri:
  assumes "is_stream_inf_tag l"
    and "parse_attributes (params (fst l) (snd l) 18) = []"
    and "\<not> is_tag_line u"
    and "\<not> st_expect_segment s"
  shows "fst (run_lines (d, s) [l, u]) = fst (run_lines (d, s) [l]) \<and>
         playlists (fst (run_lines (d, s) [l, u])) = playlists d \<and>
         segments (fst (run_lines (d, s) [l, u])) = segments d \<and>
         st_expect_playlist (snd (run_lines (d, s) [l])) \<and>
         \<not> st_expect_playlist (snd (run_lines (d, s) [l, u])) \<and>
         st_stream_info (snd (run_lines (d, s) [l, u])) = []"
proof -
  have one: "run_lines (d, s) [l] = handle_stream_inf d s (fst l) (snd l)"
    using assms(1) by (simp add: run_lines_def dispatch_stream_inf)
  have two: "run_lines (d, s) [l, u] = process_line (handle_stream_inf d s (fst l) (snd l)) u"
    using assms(1) by (simp add: run_lines_def dispatch_stream_inf)
  show ?thesis
    unfolding one two using assms(2-4)
    by (simp add: handle_stream_inf_def process_line_def process_uri_def finalize_playlist_def)
qed

theorem empty_stream_inf_witness:
  "playlists (fst (run_lines (new_data, new_state)
      [(''#EXT-X-STREAM-INF:  '', 18), (''u.m3u8'', 6)])) = [] \<and>
   \<not> st_expect_playlist (snd (run_lines (new_data, new_state)
      [(''#EXT-X-STREAM-INF:  '', 18), (''u.m3u8'', 6)]))"
proof -
  have a: "is_stream_inf_tag (''#EXT-X-STREAM-INF:  '', 18)" by code_simp
  have b: "parse_attributes (params (fst (''#EXT-X-STREAM-INF:  '', 18::nat))
      (snd (''#EXT-X-STREAM-INF:  '', 18::nat)) 18) = []" by code_simp
  have c: "\<not> is_tag_line (''u.m3u8'', 6)" by code_simp
  have e: "\<not> st_expect_segment new_state" by code_simp
  have p: "playlists new_data = []" by code_simp
  note t = empty_stream_inf_drops_uri[OF a b c e, of new_data]
  have "playlists (fst (run_lines (new_data, new_state)
      [(''#EXT-X-STREAM-INF:  '', 18), (''u.m3u8'', 6)])) = playlists new_data"
    using t by blast
  then have x: "playlists (fst (run_lines (new_data, new_state)
      [(''#EXT-X-STREAM-INF:  '', 18), (''u.m3u8'', 6)])) = []"
    using p by (rule trans)
  have y: "\<not> st_expect_playlist (snd (run_lines (new_data, new_state)
      [(''#EXT-X-STREAM-INF:  '', 18), (''u.m3u8'', 6)]))"
    using t by blast
  show ?thesis using x y by (rule conjI)
qed

text \<open>
  Claim C10 as stated fails when a segment is expected: after \<^verbatim>\<open>#EXTINF\<close>, the URI line
  that follows an empty \<^verbatim>\<open>#EXT-X-STREAM-INF:\<close> finalizes a segment with that URI, and
  \<^verbatim>\<open>expect_playlist\<close> stays set.
\<close>

theorem empty_stream_inf_counterexample:
  "is_stream_inf_tag (''#EXT-X-STREAM-INF:'', 18) \<and>
   parse_attributes (params ''#EXT-X-STREAM-INF:'' 18 18) = [] \<and>
   \<not> is_tag_line (''u.m3u8'', 6) \<and>
   map seg_uri (segments (fst (run_lines (after_lines [(''#EXTINF:4,'', 10)])
      [(''#EXT-X-STREAM-INF:'', 18), (''u.m3u8'', 6)]))) = [Some ''u.m3u8''] \<and>
   st_expect_playlist (snd (run_lines (after_lines [(''#EXTINF:4,'', 10)])
      [(''#EXT-X-STREAM-INF:'', 18), (''u.m3u8'', 6)]))"
  by code_simp

end
